theory Spec2Isabelle
  imports Complex_Main
begin

section \<open>Errors and JavaScript values\<close>

text \<open>
  Every \<^verbatim>\<open>throw\<close> of the sources is a value of \<open>error\<close>.  An HTTP failure carries
  the message the source builds (a fixed prefix followed by the response's status text).
  \<open>NetworkError\<close> is a rejected \<^verbatim>\<open>fetch\<close>, \<open>JsonError\<close> a rejected
  \<^verbatim>\<open>response.json()\<close>, \<open>StoreError\<close> a failed operation of the on-device
  key-value store and \<open>RangeError\<close> what \<^verbatim>\<open>toISOString\<close> throws on an invalid date.
\<close>

datatype error =
    HttpError string
  | NetworkError
  | JsonError
  | StoreError
  | RangeError

text \<open>
  A JavaScript \<^verbatim>\<open>number\<close> that the code only copies (canvas sizes, bookmarks, durations)
  is a real; clock readings and time-to-live values are integers (milliseconds).
\<close>

type_synonym number = real

text \<open>
  A \<^verbatim>\<open>Date\<close> is an instant in milliseconds since the epoch, or the invalid date.
  A timestamp on the wire is a string; it is represented by the instant that
  \<^verbatim>\<open>new Date(string)\<close> reads from it, or \<open>Unparseable\<close>.
  \<^verbatim>\<open>toISOString\<close> throws on the invalid date.
\<close>

datatype date = Date int | InvalidDate

datatype timestamp_string = Instant int | Unparseable

definition toISOString :: "date \<Rightarrow> error + timestamp_string" where
  "toISOString d = (case d of Date t \<Rightarrow> Inr (Instant t) | InvalidDate \<Rightarrow> Inl RangeError)"

definition new_Date :: "timestamp_string \<Rightarrow> date" where
  "new_Date s = (case s of Instant t \<Rightarrow> Date t | Unparseable \<Rightarrow> InvalidDate)"

section \<open>Projects: the in-memory shape and the wire shape\<close>

text \<open>
  Modelled from the spec: the type declarations of the project and of its wire shape
  (types/project.ts, lib/storage/types.ts) are not among the sources.  The fields are
  those that \<^verbatim>\<open>saveProject\<close> and \<^verbatim>\<open>loadProject\<close> read and write, which are the
  fields of a project in section 3; the editing defaults may be missing.
\<close>

datatype BackgroundType = BgColor | BgBlur

datatype CanvasMode = Preset | Original | Custom

record CanvasSize =
  width :: number
  height :: number

record Scene =
  scene_id :: string
  scene_name :: string
  scene_isMain :: bool
  scene_createdAt :: date
  scene_updatedAt :: date

record TProject =
  project_id :: string
  project_name :: string
  thumbnail :: string
  createdAt :: date
  updatedAt :: date
  scenes :: "Scene list"
  currentSceneId :: string
  backgroundColor :: "string option"
  backgroundType :: "BackgroundType option"
  blurIntensity :: "number option"
  bookmarks :: "number list option"
  fps :: "number option"
  canvasSize :: CanvasSize
  canvasMode :: CanvasMode

record SerializedScene =
  ss_id :: string
  ss_name :: string
  ss_isMain :: bool
  ss_createdAt :: timestamp_string
  ss_updatedAt :: timestamp_string

text \<open>
  In the wire shape \<open>scenes\<close> and \<open>currentSceneId\<close> may be missing: the loader
  guards both (\<^verbatim>\<open>scenes?.map(...) || []\<close> and \<^verbatim>\<open>currentSceneId || ""\<close>).
\<close>

record SerializedProject =
  sp_id :: string
  sp_name :: string
  sp_thumbnail :: string
  sp_createdAt :: timestamp_string
  sp_updatedAt :: timestamp_string
  sp_scenes :: "SerializedScene list option"
  sp_currentSceneId :: "string option"
  sp_backgroundColor :: "string option"
  sp_backgroundType :: "BackgroundType option"
  sp_blurIntensity :: "number option"
  sp_bookmarks :: "number list option"
  sp_fps :: "number option"
  sp_canvasSize :: CanvasSize
  sp_canvasMode :: CanvasMode

section \<open>Media and timelines\<close>

text \<open>
  Modelled from the spec: the type declarations of media and timelines (types/media.ts,
  types/timeline.ts, lib/storage/types.ts) are not among the sources.  A media record has
  the fields of section 3, as the media route of the server sends them;
  \<^verbatim>\<open>loadAllMediaFiles\<close> copies all of them but the size and the modification time.
\<close>

datatype MediaType = Image | Video | Audio

record MediaFileData =
  md_id :: string
  md_name :: string
  md_type :: MediaType
  md_url :: "string option"
  md_size :: number
  md_lastModified :: number
  md_width :: "number option"
  md_height :: "number option"
  md_duration :: "number option"
  md_ephemeral :: "bool option"
  md_sourceStickerIconName :: "string option"

text \<open>The \<open>file\<close> of a loaded media file is an empty \<^verbatim>\<open>File\<close> that carries the name only.\<close>

record MediaFile =
  mf_id :: string
  mf_name :: string
  mf_type :: MediaType
  mf_url :: "string option"
  mf_file :: string
  mf_width :: "number option"
  mf_height :: "number option"
  mf_duration :: "number option"
  mf_ephemeral :: "bool option"
  mf_sourceStickerIconName :: "string option"

text \<open>
  Modelled from the spec: section 3 has tracks that hold elements, of which at least one
  kind carries a \<open>mediaId\<close>.  A timeline element is a media element, which carries its
  id, the \<open>mediaId\<close> of its asset and a name, or a text element, which carries its id and
  its content and has no \<open>mediaId\<close>.  \<open>el_type\<close> is the \<^verbatim>\<open>type\<close> tag that
  \<^verbatim>\<open>removeMediaFile\<close> tests.
\<close>

datatype TimelineElement =
    MediaElement (el_id: string) string string
  | TextElement (el_id: string) string

datatype ElementType = media | text_type

fun el_type :: "TimelineElement \<Rightarrow> ElementType" where
  "el_type (MediaElement i m n) = media"
| "el_type (TextElement i c) = text_type"

fun el_mediaId :: "TimelineElement \<Rightarrow> string option" where
  "el_mediaId (MediaElement i m n) = Some m"
| "el_mediaId (TextElement i c) = None"

record TimelineTrack =
  track_id :: string
  track_name :: string
  elements :: "TimelineElement list"

section \<open>The remote API as the client sees it\<close>

datatype http_method = GET | POST | PUT | DELETE

datatype request_body =
    NoBody
  | ProjectBody SerializedProject
  | TimelineBody string "TimelineTrack list"

record request =
  req_method :: http_method
  req_url :: string
  req_body :: request_body

text \<open>
  The parsed JSON of a response, reduced to the properties the client reads
  (\<^verbatim>\<open>data.project\<close>, \<^verbatim>\<open>data.media\<close>, \<^verbatim>\<open>data.tracks\<close>); a property that is
  missing or null is \<open>None\<close>.  \<open>Unreadable\<close> is a body on which
  \<^verbatim>\<open>response.json()\<close> rejects.
\<close>

record json =
  j_project :: "SerializedProject option"
  j_media :: "MediaFileData list option"
  j_tracks :: "TimelineTrack list option"

datatype response_body = Unreadable | Json json

record response =
  status :: nat
  statusText :: string
  body :: response_body

definition ok :: "response \<Rightarrow> bool" where
  "ok r = (200 \<le> status r \<and> status r \<le> 299)"

text \<open>
  The remote is a parameter of every operation: a handler that, from its own state and a
  request, gives the response (\<open>None\<close> when the request fails in transit and
  \<^verbatim>\<open>fetch\<close> rejects), the milliseconds that went by, and its next state.
\<close>

type_synonym 'r remote = "'r \<Rightarrow> request \<Rightarrow> response option \<times> nat \<times> 'r"

section \<open>The on-device key-value store and the TTL cache adapter\<close>

datatype idb_op = IdbGet | IdbSet | IdbRemove

text \<open>
  Modelled from the spec: the persistent key-value store (indexeddb-adapter.ts) is not
  among the sources.  Section 2 gives it as a durable mapping from string key to
  structured value with get, set and remove; section 7 says that its operations can fail.
  \<open>failing\<close> tells which operations throw.
\<close>

record 'e IndexedDBAdapter =
  entries :: "string \<rightharpoonup> 'e"
  failing :: "idb_op \<Rightarrow> bool"

text \<open>Modelled from the spec: the store's \<open>get\<close>, the value under the key if there is one.\<close>

definition idb_get :: "'e IndexedDBAdapter \<Rightarrow> string \<Rightarrow> error + 'e option" where
  "idb_get d key = (if failing d IdbGet then Inl StoreError else Inr (entries d key))"

text \<open>Modelled from the spec: the store's \<open>set\<close>, which overwrites what the key held.\<close>

definition idb_set :: "'e IndexedDBAdapter \<Rightarrow> string \<Rightarrow> 'e \<Rightarrow> error + 'e IndexedDBAdapter" where
  "idb_set d key e =
     (if failing d IdbSet then Inl StoreError
      else Inr (d\<lparr>entries := (entries d)(key \<mapsto> e)\<rparr>))"

text \<open>Modelled from the spec: the store's \<open>remove\<close>; removing an absent key is no error.\<close>

definition idb_remove :: "'e IndexedDBAdapter \<Rightarrow> string \<Rightarrow> error + 'e IndexedDBAdapter" where
  "idb_remove d key =
     (if failing d IdbRemove then Inl StoreError
      else Inr (d\<lparr>entries := (entries d)(key := None)\<rparr>))"

record 'v CacheEntry =
  data :: 'v
  timestamp :: int
  version :: int

record 'v CacheAdapter =
  idbAdapter :: "'v CacheEntry IndexedDBAdapter"
  ttl :: int

text \<open>
  \<^verbatim>\<open>CacheAdapter.get\<close>; \<open>t\<close> is the reading of \<^verbatim>\<open>Date.now()\<close>.  Any error of the
  store is caught and answered with null.
\<close>

definition CacheAdapter_get ::
  "'v CacheAdapter \<Rightarrow> int \<Rightarrow> string \<Rightarrow> 'v option \<times> 'v CacheAdapter" where
  "CacheAdapter_get c t key =
     (case idb_get (idbAdapter c) key of
        Inl e \<Rightarrow> (None, c)
      | Inr None \<Rightarrow> (None, c)
      | Inr (Some entry) \<Rightarrow>
          if t - timestamp entry > ttl c then
            (case idb_remove (idbAdapter c) key of
               Inl e \<Rightarrow> (None, c)
             | Inr d \<Rightarrow> (None, c\<lparr>idbAdapter := d\<rparr>))
          else (Some (data entry), c))"

text \<open>\<^verbatim>\<open>CacheAdapter.set\<close>: an error of the store is thrown on.\<close>

definition CacheAdapter_set ::
  "'v CacheAdapter \<Rightarrow> int \<Rightarrow> string \<Rightarrow> 'v \<Rightarrow> int \<Rightarrow> error + 'v CacheAdapter" where
  "CacheAdapter_set c t key d v =
     (case idb_set (idbAdapter c) key \<lparr>data = d, timestamp = t, version = v\<rparr> of
        Inl e \<Rightarrow> Inl e
      | Inr s \<Rightarrow> Inr (c\<lparr>idbAdapter := s\<rparr>))"

text \<open>\<^verbatim>\<open>CacheAdapter.invalidate\<close>: an error of the store is swallowed.\<close>

definition CacheAdapter_invalidate :: "'v CacheAdapter \<Rightarrow> string \<Rightarrow> 'v CacheAdapter" where
  "CacheAdapter_invalidate c key =
     (case idb_remove (idbAdapter c) key of
        Inl e \<Rightarrow> c
      | Inr d \<Rightarrow> c\<lparr>idbAdapter := d\<rparr>)"

definition CacheAdapter_getWithMetadata ::
  "'v CacheAdapter \<Rightarrow> int \<Rightarrow> string \<Rightarrow> 'v CacheEntry option \<times> 'v CacheAdapter" where
  "CacheAdapter_getWithMetadata c t key =
     (case idb_get (idbAdapter c) key of
        Inl e \<Rightarrow> (None, c)
      | Inr None \<Rightarrow> (None, c)
      | Inr (Some entry) \<Rightarrow>
          if t - timestamp entry > ttl c then
            (case idb_remove (idbAdapter c) key of
               Inl e \<Rightarrow> (None, c)
             | Inr d \<Rightarrow> (None, c\<lparr>idbAdapter := d\<rparr>))
          else (Some entry, c))"

text \<open>\<^verbatim>\<open>CacheAdapter.getRemainingTTL\<close> reads the store and never writes to it.\<close>

definition CacheAdapter_getRemainingTTL ::
  "'v CacheAdapter \<Rightarrow> int \<Rightarrow> string \<Rightarrow> int \<times> 'v CacheAdapter" where
  "CacheAdapter_getRemainingTTL c t key =
     (case idb_get (idbAdapter c) key of
        Inl e \<Rightarrow> (- 1, c)
      | Inr None \<Rightarrow> (- 1, c)
      | Inr (Some entry) \<Rightarrow>
          (let age = t - timestamp entry;
               remaining = ttl c - age
           in (if remaining > 0 then remaining else - 1, c)))"

section \<open>The client's state and its effects\<close>

text \<open>
  The effects whose order matters are recorded in a trace: every request handed to
  \<^verbatim>\<open>fetch\<close>, and the mutations of the media store and of the timeline store that
  \<^verbatim>\<open>removeMediaFile\<close> makes.
\<close>

datatype event =
    Fetch request
  | MediaFilesSet
  | SetSelectedElements "(string \<times> string) list"
  | DeleteSelected

text \<open>
  The state of the client and of its environment: the remote's state, the clock that
  \<^verbatim>\<open>Date.now()\<close> reads, the trace, the two caches of the storage service, the media
  store's \<open>mediaFiles\<close> and the timeline store's \<open>tracks\<close> and \<open>selectedElements\<close>.
\<close>

record 'r world =
  remote_state :: 'r
  now :: int
  trace :: "event list"
  mediaCache :: "MediaFileData list CacheAdapter"
  timelinesCache :: "TimelineTrack list CacheAdapter"
  mediaFiles :: "MediaFile list"
  tracks :: "TimelineTrack list"
  selectedElements :: "(string \<times> string) list"

text \<open>
  \<^verbatim>\<open>fetch\<close> in two steps, as an asynchronous call runs: the request is issued (and
  recorded), and later the remote's answer arrives, while the clock has moved on.
\<close>

definition issue :: "'r world \<Rightarrow> request \<Rightarrow> 'r world" where
  "issue w req = w\<lparr>trace := trace w @ [Fetch req]\<rparr>"

definition serve :: "'r remote \<Rightarrow> 'r world \<Rightarrow> request \<Rightarrow> response option \<times> 'r world" where
  "serve srv w req =
     (case srv (remote_state w) req of
        (res, dt, r') \<Rightarrow> (res, w\<lparr>remote_state := r', now := now w + int dt\<rparr>))"

definition fetch :: "'r remote \<Rightarrow> 'r world \<Rightarrow> request \<Rightarrow> response option \<times> 'r world" where
  "fetch srv w req = serve srv (issue w req) req"

section \<open>The remote entity adapter for projects\<close>

record RemoteProjectsAdapter =
  baseUrl :: string

definition RemoteProjectsAdapter_get ::
  "RemoteProjectsAdapter \<Rightarrow> 'r remote \<Rightarrow> 'r world \<Rightarrow> string
     \<Rightarrow> (error + SerializedProject option) \<times> 'r world" where
  "RemoteProjectsAdapter_get a srv w i =
     (case fetch srv w \<lparr>req_method = GET, req_url = baseUrl a @ ''/'' @ i, req_body = NoBody\<rparr> of
        (None, w1) \<Rightarrow> (Inl NetworkError, w1)
      | (Some r, w1) \<Rightarrow>
          if status r = 404 then (Inr None, w1)
          else if \<not> ok r then (Inl (HttpError (''Failed to fetch project: '' @ statusText r)), w1)
          else (case body r of
                  Unreadable \<Rightarrow> (Inl JsonError, w1)
                | Json j \<Rightarrow> (Inr (j_project j), w1)))"

definition RemoteProjectsAdapter_set ::
  "RemoteProjectsAdapter \<Rightarrow> 'r remote \<Rightarrow> 'r world \<Rightarrow> string \<Rightarrow> SerializedProject
     \<Rightarrow> (error + unit) \<times> 'r world" where
  "RemoteProjectsAdapter_set a srv w i v =
     (case RemoteProjectsAdapter_get a srv w i of
        (Inl e, w1) \<Rightarrow> (Inl e, w1)
      | (Inr (Some existingProject), w1) \<Rightarrow>
          (case fetch srv w1
                  \<lparr>req_method = PUT, req_url = baseUrl a @ ''/'' @ i, req_body = ProjectBody v\<rparr> of
             (None, w2) \<Rightarrow> (Inl NetworkError, w2)
           | (Some r, w2) \<Rightarrow>
               if \<not> ok r then (Inl (HttpError (''Failed to update project: '' @ statusText r)), w2)
               else (Inr (), w2))
      | (Inr None, w1) \<Rightarrow>
          (case fetch srv w1
                  \<lparr>req_method = POST, req_url = baseUrl a, req_body = ProjectBody v\<rparr> of
             (None, w2) \<Rightarrow> (Inl NetworkError, w2)
           | (Some r, w2) \<Rightarrow>
               if \<not> ok r then (Inl (HttpError (''Failed to create project: '' @ statusText r)), w2)
               else (Inr (), w2)))"

definition RemoteProjectsAdapter_remove ::
  "RemoteProjectsAdapter \<Rightarrow> 'r remote \<Rightarrow> 'r world \<Rightarrow> string \<Rightarrow> (error + unit) \<times> 'r world" where
  "RemoteProjectsAdapter_remove a srv w i =
     (case fetch srv w \<lparr>req_method = DELETE, req_url = baseUrl a @ ''/'' @ i, req_body = NoBody\<rparr> of
        (None, w1) \<Rightarrow> (Inl NetworkError, w1)
      | (Some r, w1) \<Rightarrow>
          if \<not> ok r \<and> status r \<noteq> 404
          then (Inl (HttpError (''Failed to delete project: '' @ statusText r)), w1)
          else (Inr (), w1))"

section \<open>The storage service\<close>

text \<open>The storage service constructs its project adapter with the default base URL.\<close>

definition projectsAdapter :: RemoteProjectsAdapter where
  "projectsAdapter = \<lparr>baseUrl = ''/api/projects''\<rparr>"

subsection \<open>Projects\<close>

definition serializeScene :: "Scene \<Rightarrow> error + SerializedScene" where
  "serializeScene scene =
     (case toISOString (scene_createdAt scene) of
        Inl e \<Rightarrow> Inl e
      | Inr c \<Rightarrow>
          (case toISOString (scene_updatedAt scene) of
             Inl e \<Rightarrow> Inl e
           | Inr u \<Rightarrow>
               Inr \<lparr>ss_id = scene_id scene, ss_name = scene_name scene,
                    ss_isMain = scene_isMain scene, ss_createdAt = c, ss_updatedAt = u\<rparr>))"

text \<open>\<^verbatim>\<open>project.scenes.map(...)\<close>, which stops at the first scene whose date is invalid.\<close>

fun serializeScenes :: "Scene list \<Rightarrow> error + SerializedScene list" where
  "serializeScenes [] = Inr []"
| "serializeScenes (scene # rest) =
     (case serializeScene scene of
        Inl e \<Rightarrow> Inl e
      | Inr s \<Rightarrow>
          (case serializeScenes rest of
             Inl e \<Rightarrow> Inl e
           | Inr ss \<Rightarrow> Inr (s # ss)))"

text \<open>The first half of \<^verbatim>\<open>saveProject\<close>: the conversion to the wire shape.\<close>

definition serializeProject :: "TProject \<Rightarrow> error + SerializedProject" where
  "serializeProject project =
     (case serializeScenes (scenes project) of
        Inl e \<Rightarrow> Inl e
      | Inr serializedScenes \<Rightarrow>
          (case toISOString (createdAt project) of
             Inl e \<Rightarrow> Inl e
           | Inr c \<Rightarrow>
               (case toISOString (updatedAt project) of
                  Inl e \<Rightarrow> Inl e
                | Inr u \<Rightarrow>
                    Inr \<lparr>sp_id = project_id project,
                         sp_name = project_name project,
                         sp_thumbnail = thumbnail project,
                         sp_createdAt = c,
                         sp_updatedAt = u,
                         sp_scenes = Some serializedScenes,
                         sp_currentSceneId = Some (currentSceneId project),
                         sp_backgroundColor = backgroundColor project,
                         sp_backgroundType = backgroundType project,
                         sp_blurIntensity = blurIntensity project,
                         sp_bookmarks = bookmarks project,
                         sp_fps = fps project,
                         sp_canvasSize = canvasSize project,
                         sp_canvasMode = canvasMode project\<rparr>)))"

definition saveProject :: "'r remote \<Rightarrow> 'r world \<Rightarrow> TProject \<Rightarrow> (error + unit) \<times> 'r world" where
  "saveProject srv w project =
     (case serializeProject project of
        Inl e \<Rightarrow> (Inl e, w)
      | Inr serializedProject \<Rightarrow>
          RemoteProjectsAdapter_set projectsAdapter srv w (project_id project) serializedProject)"

definition deserializeScene :: "SerializedScene \<Rightarrow> Scene" where
  "deserializeScene scene =
     \<lparr>scene_id = ss_id scene, scene_name = ss_name scene, scene_isMain = ss_isMain scene,
      scene_createdAt = new_Date (ss_createdAt scene),
      scene_updatedAt = new_Date (ss_updatedAt scene)\<rparr>"

text \<open>The second half of \<^verbatim>\<open>loadProject\<close>: the conversion from the wire shape.\<close>

definition deserializeProject :: "SerializedProject \<Rightarrow> TProject" where
  "deserializeProject serializedProject =
     \<lparr>project_id = sp_id serializedProject,
      project_name = sp_name serializedProject,
      thumbnail = sp_thumbnail serializedProject,
      createdAt = new_Date (sp_createdAt serializedProject),
      updatedAt = new_Date (sp_updatedAt serializedProject),
      scenes = (case sp_scenes serializedProject of
                  None \<Rightarrow> []
                | Some ss \<Rightarrow> map deserializeScene ss),
      currentSceneId = (case sp_currentSceneId serializedProject of
                          None \<Rightarrow> []
                        | Some s \<Rightarrow> if s = [] then [] else s),
      backgroundColor = sp_backgroundColor serializedProject,
      backgroundType = sp_backgroundType serializedProject,
      blurIntensity = sp_blurIntensity serializedProject,
      bookmarks = sp_bookmarks serializedProject,
      fps = sp_fps serializedProject,
      canvasSize = sp_canvasSize serializedProject,
      canvasMode = sp_canvasMode serializedProject\<rparr>"

definition loadProject ::
  "'r remote \<Rightarrow> 'r world \<Rightarrow> string \<Rightarrow> (error + TProject option) \<times> 'r world" where
  "loadProject srv w i =
     (case RemoteProjectsAdapter_get projectsAdapter srv w i of
        (Inl e, w1) \<Rightarrow> (Inl e, w1)
      | (Inr None, w1) \<Rightarrow> (Inr None, w1)
      | (Inr (Some serializedProject), w1) \<Rightarrow> (Inr (Some (deserializeProject serializedProject)), w1))"

subsection \<open>Media\<close>

definition toMediaFile :: "MediaFileData \<Rightarrow> MediaFile" where
  "toMediaFile metadata =
     \<lparr>mf_id = md_id metadata,
      mf_name = md_name metadata,
      mf_type = md_type metadata,
      mf_url = md_url metadata,
      mf_file = md_name metadata,
      mf_width = md_width metadata,
      mf_height = md_height metadata,
      mf_duration = md_duration metadata,
      mf_ephemeral = md_ephemeral metadata,
      mf_sourceStickerIconName = md_sourceStickerIconName metadata\<rparr>"

definition loadAllMediaFiles_request :: "string \<Rightarrow> request" where
  "loadAllMediaFiles_request projectId =
     \<lparr>req_method = GET, req_url = ''/api/media?projectId='' @ projectId, req_body = NoBody\<rparr>"

definition loadAllMediaFiles ::
  "'r remote \<Rightarrow> 'r world \<Rightarrow> string \<Rightarrow> (error + MediaFile list) \<times> 'r world" where
  "loadAllMediaFiles srv w projectId =
     (case CacheAdapter_get (mediaCache w) (now w) projectId of
        (Some cachedMetadata, c1) \<Rightarrow> (Inr (map toMediaFile cachedMetadata), w\<lparr>mediaCache := c1\<rparr>)
      | (None, c1) \<Rightarrow>
          (case fetch srv (w\<lparr>mediaCache := c1\<rparr>) (loadAllMediaFiles_request projectId) of
             (None, w2) \<Rightarrow> (Inl NetworkError, w2)
           | (Some r, w2) \<Rightarrow>
               if \<not> ok r then (Inl (HttpError (''Failed to load media: '' @ statusText r)), w2)
               else
                 (case body r of
                    Unreadable \<Rightarrow> (Inl JsonError, w2)
                  | Json j \<Rightarrow>
                      (let cachedMetadata = (case j_media j of None \<Rightarrow> [] | Some m \<Rightarrow> m) in
                         if length cachedMetadata > 0 then
                           (case CacheAdapter_set (mediaCache w2) (now w2) projectId cachedMetadata 1 of
                              Inl e \<Rightarrow> (Inl e, w2)
                            | Inr c2 \<Rightarrow>
                                (Inr (map toMediaFile cachedMetadata), w2\<lparr>mediaCache := c2\<rparr>))
                         else (Inr (map toMediaFile cachedMetadata), w2)))))"

definition deleteMediaFile_request :: "string \<Rightarrow> request" where
  "deleteMediaFile_request i =
     \<lparr>req_method = DELETE, req_url = ''/api/media/'' @ i, req_body = NoBody\<rparr>"

text \<open>
  What \<^verbatim>\<open>deleteMediaFile\<close> does once its request is out: it takes the response,
  throws on a failure other than 404, and invalidates the project's cached media list.
\<close>

definition deleteMediaFile_resume ::
  "'r remote \<Rightarrow> 'r world \<Rightarrow> string \<Rightarrow> string \<Rightarrow> (error + unit) \<times> 'r world" where
  "deleteMediaFile_resume srv w projectId i =
     (case serve srv w (deleteMediaFile_request i) of
        (None, w1) \<Rightarrow> (Inl NetworkError, w1)
      | (Some r, w1) \<Rightarrow>
          if \<not> ok r \<and> status r \<noteq> 404
          then (Inl (HttpError (''Failed to delete media: '' @ statusText r)), w1)
          else (Inr (), w1\<lparr>mediaCache := CacheAdapter_invalidate (mediaCache w1) projectId\<rparr>))"

definition deleteMediaFile ::
  "'r remote \<Rightarrow> 'r world \<Rightarrow> string \<Rightarrow> string \<Rightarrow> (error + unit) \<times> 'r world" where
  "deleteMediaFile srv w projectId i =
     deleteMediaFile_resume srv (issue w (deleteMediaFile_request i)) projectId i"

text \<open>
  \<^verbatim>\<open>Promise.all\<close> over the deletions.  \<^verbatim>\<open>allMedia.map\<close> starts every deletion, so all the
  requests are issued, in the order of the list, before any response is there.  The
  responses then arrive in some order, and each deletion runs on from its response
  whatever became of the others.  \<open>settle_all\<close> runs the deletions on in the order of
  arrival and keeps each outcome; \<open>first_rejection\<close> is the outcome of \<^verbatim>\<open>Promise.all\<close>,
  which rejects with the first rejection to occur.
\<close>

fun settle_all ::
  "'r remote \<Rightarrow> 'r world \<Rightarrow> string \<Rightarrow> string list \<Rightarrow> (error + unit) list \<times> 'r world" where
  "settle_all srv w projectId [] = ([], w)"
| "settle_all srv w projectId (i # rest) =
     (case deleteMediaFile_resume srv w projectId i of
        (res, w1) \<Rightarrow>
          (case settle_all srv w1 projectId rest of
             (ress, w2) \<Rightarrow> (res # ress, w2)))"

fun first_rejection :: "(error + unit) list \<Rightarrow> error option" where
  "first_rejection [] = None"
| "first_rejection (Inl e # rest) = Some e"
| "first_rejection (Inr u # rest) = first_rejection rest"

text \<open>
  \<^verbatim>\<open>deleteProjectMedia\<close>.  \<open>arrival\<close> gives the order in which the responses to the
  deletions arrive (a rearrangement of the ids).  The state returned is the one reached
  when every deletion has run to its end; on a rejection the caller is resumed with the
  error and the final invalidation is not reached.
\<close>

definition deleteProjectMedia ::
  "'r remote \<Rightarrow> (string list \<Rightarrow> string list) \<Rightarrow> 'r world \<Rightarrow> string \<Rightarrow> (error + unit) \<times> 'r world" where
  "deleteProjectMedia srv arrival w projectId =
     (case loadAllMediaFiles srv w projectId of
        (Inl e, w1) \<Rightarrow> (Inl e, w1)
      | (Inr allMedia, w1) \<Rightarrow>
          (let ids = map mf_id allMedia;
               w2 = foldl issue w1 (map deleteMediaFile_request ids)
           in case settle_all srv w2 projectId (arrival ids) of
                (results, w3) \<Rightarrow>
                  (case first_rejection results of
                     Some e \<Rightarrow> (Inl e, w3)
                   | None \<Rightarrow>
                       (Inr (), w3\<lparr>mediaCache := CacheAdapter_invalidate (mediaCache w3) projectId\<rparr>))))"

subsection \<open>Timelines\<close>

definition loadTimeline_request :: "string \<Rightarrow> request" where
  "loadTimeline_request sceneId =
     \<lparr>req_method = GET, req_url = ''/api/timelines?sceneId='' @ sceneId, req_body = NoBody\<rparr>"

definition loadTimeline ::
  "'r remote \<Rightarrow> 'r world \<Rightarrow> string \<Rightarrow> (error + TimelineTrack list option) \<times> 'r world" where
  "loadTimeline srv w sceneId =
     (case CacheAdapter_get (timelinesCache w) (now w) sceneId of
        (Some cachedTracks, c1) \<Rightarrow> (Inr (Some cachedTracks), w\<lparr>timelinesCache := c1\<rparr>)
      | (None, c1) \<Rightarrow>
          (case fetch srv (w\<lparr>timelinesCache := c1\<rparr>) (loadTimeline_request sceneId) of
             (None, w2) \<Rightarrow> (Inl NetworkError, w2)
           | (Some r, w2) \<Rightarrow>
               if status r = 404 then (Inr None, w2)
               else if \<not> ok r
               then (Inl (HttpError (''Failed to load timeline: '' @ statusText r)), w2)
               else
                 (case body r of
                    Unreadable \<Rightarrow> (Inl JsonError, w2)
                  | Json j \<Rightarrow>
                      (let cachedTracks = (case j_tracks j of None \<Rightarrow> [] | Some t \<Rightarrow> t) in
                         if length cachedTracks > 0 then
                           (case CacheAdapter_set (timelinesCache w2) (now w2) sceneId cachedTracks 1 of
                              Inl e \<Rightarrow> (Inl e, w2)
                            | Inr c2 \<Rightarrow> (Inr (Some cachedTracks), w2\<lparr>timelinesCache := c2\<rparr>))
                         else (Inr (Some cachedTracks), w2)))))"

section \<open>The media store and the cascade into the timeline\<close>

text \<open>
  Modelled from the spec: the timeline store (timeline-store.ts) is not among the sources.
  Section 4.4, step 3: the matches are selected as a batch, and the timeline's
  multi-element deletion path is invoked.  A selection is a list of pairs of a track id
  and an element id, as \<^verbatim>\<open>removeMediaFile\<close> builds it; the deletion removes from every
  track the elements that the selection names.
\<close>

definition setSelectedElements :: "'r world \<Rightarrow> (string \<times> string) list \<Rightarrow> 'r world" where
  "setSelectedElements w sel =
     w\<lparr>selectedElements := sel, trace := trace w @ [SetSelectedElements sel]\<rparr>"

text \<open>
  Modelled from the spec: the timeline store's \<^verbatim>\<open>deleteSelected\<close> (timeline-store.ts, not
  among the sources), the multi-element deletion path of section 4.4, step 3.
\<close>

definition deleteSelected :: "'r world \<Rightarrow> 'r world" where
  "deleteSelected w =
     w\<lparr>tracks :=
          map (\<lambda>track. track\<lparr>elements :=
                 filter (\<lambda>el. (track_id track, el_id el) \<notin> set (selectedElements w))
                   (elements track)\<rparr>)
            (tracks w),
       trace := trace w @ [DeleteSelected]\<rparr>"

text \<open>The two nested loops of \<^verbatim>\<open>removeMediaFile\<close> that collect the elements to remove.\<close>

definition elementsToRemove :: "TimelineTrack list \<Rightarrow> string \<Rightarrow> (string \<times> string) list" where
  "elementsToRemove ts i =
     concat (map (\<lambda>track.
        map (\<lambda>el. (track_id track, el_id el))
          (filter (\<lambda>el. el_type el = media \<and> el_mediaId el = Some i) (elements track))) ts)"

text \<open>
  \<^verbatim>\<open>removeMediaFile\<close> of the media store.  (\<^verbatim>\<open>videoCache.clearVideo\<close> touches none
  of the state kept here.)  The error of the remote deletion is caught and logged.
\<close>

definition removeMediaFile ::
  "'r remote \<Rightarrow> 'r world \<Rightarrow> string \<Rightarrow> string \<Rightarrow> (error + unit) \<times> 'r world" where
  "removeMediaFile srv w projectId i =
     (let w1 = w\<lparr>mediaFiles := filter (\<lambda>m. mf_id m \<noteq> i) (mediaFiles w),
                 trace := trace w @ [MediaFilesSet]\<rparr>;
          toRemove = elementsToRemove (tracks w1) i;
          w2 = (if length toRemove > 0
                then deleteSelected (setSelectedElements w1 toRemove)
                else w1)
      in case deleteMediaFile srv w2 projectId i of
           (Inl e, w3) \<Rightarrow> (Inr (), w3)
         | (Inr u, w3) \<Rightarrow> (Inr (), w3))"

section \<open>The server's route for deleting a media record\<close>

text \<open>
  \<^verbatim>\<open>DELETE /api/media/:id\<close> of the sources, over a table of media rows keyed by id:
  404 when no row has the id, else the row is deleted; any error of the database is
  answered with 500.  The status texts are the standard reason phrases, and the body has
  none of the properties that the client reads.
\<close>

record media_db =
  media_rows :: "string \<rightharpoonup> MediaFileData"
  db_down :: bool

definition media_DELETE :: "media_db \<Rightarrow> string \<Rightarrow> response \<times> media_db" where
  "media_DELETE db i =
     (if db_down db
      then (\<lparr>status = 500, statusText = ''Internal Server Error'', body = Json \<lparr>j_project = None, j_media = None, j_tracks = None\<rparr>\<rparr>, db)
      else
        (case media_rows db i of
           None \<Rightarrow> (\<lparr>status = 404, statusText = ''Not Found'', body = Json \<lparr>j_project = None, j_media = None, j_tracks = None\<rparr>\<rparr>, db)
         | Some existingMedia \<Rightarrow>
             (\<lparr>status = 200, statusText = ''OK'', body = Json \<lparr>j_project = None, j_media = None, j_tracks = None\<rparr>\<rparr>,
              db\<lparr>media_rows := (media_rows db)(i := None)\<rparr>)))"

text \<open>
  The route as a remote; \<open>dt\<close> is the time a request takes.  Any other request is
  answered with 404.
\<close>

definition media_api :: "nat \<Rightarrow> media_db remote" where
  "media_api dt db req =
     (if req_method req = DELETE \<and> take 11 (req_url req) = ''/api/media/''
      then (case media_DELETE db (drop 11 (req_url req)) of (r, db') \<Rightarrow> (Some r, dt, db'))
      else (Some \<lparr>status = 404, statusText = ''Not Found'', body = Unreadable\<rparr>, dt, db))"

section \<open>States named in the properties\<close>

text \<open>
  The state after a lookup that missed and a fetch after which nothing was written to the
  cache: the cache is as the lookup left it, the request is in the trace, and the remote
  and the clock have moved on.
\<close>

definition media_unwritten :: "'r world \<Rightarrow> string \<Rightarrow> nat \<Rightarrow> 'r \<Rightarrow> 'r world" where
  "media_unwritten w projectId dt r' =
     w\<lparr>mediaCache := snd (CacheAdapter_get (mediaCache w) (now w) projectId),
       trace := trace w @ [Fetch (loadAllMediaFiles_request projectId)],
       remote_state := r',
       now := now w + int dt\<rparr>"

definition timeline_unwritten :: "'r world \<Rightarrow> string \<Rightarrow> nat \<Rightarrow> 'r \<Rightarrow> 'r world" where
  "timeline_unwritten w sceneId dt r' =
     w\<lparr>timelinesCache := snd (CacheAdapter_get (timelinesCache w) (now w) sceneId),
       trace := trace w @ [Fetch (loadTimeline_request sceneId)],
       remote_state := r',
       now := now w + int dt\<rparr>"

text \<open>
  An element references a media asset when its \<open>mediaId\<close> is the asset's id.
  \<open>all_elements\<close> are the elements of a timeline, track after track.
\<close>

definition references :: "string \<Rightarrow> TimelineElement \<Rightarrow> bool" where
  "references i el = (el_mediaId el = Some i)"

definition all_elements :: "TimelineTrack list \<Rightarrow> TimelineElement list" where
  "all_elements ts = concat (map elements ts)"

text \<open>
  Ids are identities (section 3 of the specification): within the timeline, a track id and
  an element id together determine the element.
\<close>

definition ids_identify :: "TimelineTrack list \<Rightarrow> bool" where
  "ids_identify ts =
     (\<forall>t \<in> set ts. \<forall>t' \<in> set ts. \<forall>e \<in> set (elements t). \<forall>e' \<in> set (elements t').
        track_id t = track_id t' \<and> el_id e = el_id e' \<longrightarrow> e = e')"

text \<open>
  The state of \<^verbatim>\<open>removeMediaFile\<close> when it turns to the remote: the asset is out of
  the media list, and the elements that use it are selected and deleted.
\<close>

definition after_local_removal :: "'r world \<Rightarrow> string \<Rightarrow> 'r world" where
  "after_local_removal w i =
     (let w1 = w\<lparr>mediaFiles := filter (\<lambda>m. mf_id m \<noteq> i) (mediaFiles w),
                 trace := trace w @ [MediaFilesSet]\<rparr>;
          toRemove = elementsToRemove (tracks w1) i
      in if length toRemove > 0
         then deleteSelected (setSelectedElements w1 toRemove)
         else w1)"

section \<open>Concrete stores, remotes and states for the examples\<close>

text \<open>A store that is empty and whose operations all succeed.\<close>

definition working_store :: "'e IndexedDBAdapter" where
  "working_store = \<lparr>entries = Map.empty, failing = (\<lambda>op. False)\<rparr>"

text \<open>The constructor of \<^verbatim>\<open>CacheAdapter\<close>, on a new store.\<close>

definition new_CacheAdapter :: "int \<Rightarrow> 'v CacheAdapter" where
  "new_CacheAdapter life = \<lparr>idbAdapter = working_store, ttl = life\<rparr>"

text \<open>A timeline cache (one minute to live) after one write under \<open>scene-1\<close> at time 0.\<close>

definition written_cache :: "string CacheAdapter" where
  "written_cache =
     \<lparr>idbAdapter =
        \<lparr>entries = [''scene-1'' \<mapsto> \<lparr>data = ''tracks'', timestamp = 0, version = 1\<rparr>],
         failing = (\<lambda>op. False)\<rparr>,
      ttl = 60000\<rparr>"

text \<open>
  A remote that plays a script: it answers the requests, whatever they are, with the
  responses of its list in turn, and fails in transit once the list is used up.
\<close>

definition scripted :: "(response option \<times> nat) list remote" where
  "scripted s req = (case s of [] \<Rightarrow> (None, 0, []) | (a, dt) # rest \<Rightarrow> (a, dt, rest))"

text \<open>The state at start-up: the caches as the storage service constructs them.\<close>

definition initial_world :: "'r \<Rightarrow> 'r world" where
  "initial_world r =
     \<lparr>remote_state = r, now = 0, trace = [],
      mediaCache = new_CacheAdapter 300000,
      timelinesCache = new_CacheAdapter 60000,
      mediaFiles = [], tracks = [], selectedElements = []\<rparr>"

definition no_json :: json where
  "no_json = \<lparr>j_project = None, j_media = None, j_tracks = None\<rparr>"

definition answer :: "nat \<Rightarrow> string \<Rightarrow> json \<Rightarrow> response" where
  "answer st txt j = \<lparr>status = st, statusText = txt, body = Json j\<rparr>"

definition clip :: "string \<Rightarrow> MediaFileData" where
  "clip i =
     \<lparr>md_id = i, md_name = ''clip.mp4'', md_type = Video, md_url = Some ''https://assets/clip.mp4'',
      md_size = 1048576, md_lastModified = 1700000000000,
      md_width = Some 1920, md_height = Some 1080, md_duration = Some 12,
      md_ephemeral = Some False, md_sourceStickerIconName = None\<rparr>"

definition main_track :: TimelineTrack where
  "main_track =
     \<lparr>track_id = ''t1'', track_name = ''Main'',
      elements = [MediaElement ''e1'' ''m1'' ''clip'', TextElement ''e2'' ''title'',
                  MediaElement ''e3'' ''m2'' ''other'']\<rparr>"

text \<open>
  A project with two scenes, the second of which is the current one, and its wire shape.
\<close>

definition demo_project :: TProject where
  "demo_project =
     \<lparr>project_id = ''p1'', project_name = ''Demo'', thumbnail = ''thumb.png'',
      createdAt = Date 1700000000000, updatedAt = Date 1700000360000,
      scenes =
        [\<lparr>scene_id = ''s1'', scene_name = ''Main scene'', scene_isMain = True,
          scene_createdAt = Date 1700000000000, scene_updatedAt = Date 1700000000500\<rparr>,
         \<lparr>scene_id = ''s2'', scene_name = ''Scene 2'', scene_isMain = False,
          scene_createdAt = Date 1700000100000, scene_updatedAt = Date 1700000360000\<rparr>],
      currentSceneId = ''s2'',
      backgroundColor = Some ''#000000'', backgroundType = Some BgColor,
      blurIntensity = Some 8, bookmarks = Some [1.5, 4], fps = Some 30,
      canvasSize = \<lparr>width = 1920, height = 1080\<rparr>, canvasMode = Preset\<rparr>"

definition demo_serialized :: SerializedProject where
  "demo_serialized =
     \<lparr>sp_id = ''p1'', sp_name = ''Demo'', sp_thumbnail = ''thumb.png'',
      sp_createdAt = Instant 1700000000000, sp_updatedAt = Instant 1700000360000,
      sp_scenes = Some
        [\<lparr>ss_id = ''s1'', ss_name = ''Main scene'', ss_isMain = True,
          ss_createdAt = Instant 1700000000000, ss_updatedAt = Instant 1700000000500\<rparr>,
         \<lparr>ss_id = ''s2'', ss_name = ''Scene 2'', ss_isMain = False,
          ss_createdAt = Instant 1700000100000, ss_updatedAt = Instant 1700000360000\<rparr>],
      sp_currentSceneId = Some ''s2'',
      sp_backgroundColor = Some ''#000000'', sp_backgroundType = Some BgColor,
      sp_blurIntensity = Some 8, sp_bookmarks = Some [1.5, 4], sp_fps = Some 30,
      sp_canvasSize = \<lparr>width = 1920, height = 1080\<rparr>, sp_canvasMode = Preset\<rparr>"

text \<open>
  A remote that knows nothing of the project when asked, accepts its creation, and then
  returns what was stored.
\<close>

definition round_trip_world :: "(response option \<times> nat) list world" where
  "round_trip_world =
     initial_world
       [(Some (answer 404 ''Not Found'' no_json), 5),
        (Some (answer 200 ''OK'' (no_json\<lparr>j_project := Some demo_serialized\<rparr>)), 5),
        (Some (answer 200 ''OK'' (no_json\<lparr>j_project := Some demo_serialized\<rparr>)), 5)]"

text \<open>A client at start-up, and a server whose table holds the one row \<open>m1\<close>.\<close>

definition media_world :: "media_db world" where
  "media_world =
     initial_world \<lparr>media_rows = [''m1'' \<mapsto> clip ''m1''], db_down = False\<rparr>"

text \<open>
  A second track, and an editor state with two assets and two tracks: \<open>e1\<close> and \<open>e4\<close>
  use \<open>m1\<close>, \<open>e3\<close> uses \<open>m2\<close>, and \<open>e2\<close> is a text.
\<close>

definition overlay_track :: TimelineTrack where
  "overlay_track =
     \<lparr>track_id = ''t2'', track_name = ''Overlay'',
      elements = [MediaElement ''e4'' ''m1'' ''clip again'']\<rparr>"

definition editing_world :: "(response option \<times> nat) list \<Rightarrow> (response option \<times> nat) list world" where
  "editing_world script =
     (initial_world script)
       \<lparr>mediaFiles := [toMediaFile (clip ''m1''), toMediaFile (clip ''m2'')],
        tracks := [main_track, overlay_track]\<rparr>"

text \<open>
  Remotes that list the media of a project and then answer the deletions: one fails the
  first and the third deletion to arrive, the other fails both of two.
\<close>

definition listing :: "MediaFileData list \<Rightarrow> response option \<times> nat" where
  "listing ms = (Some (answer 200 ''OK'' (no_json\<lparr>j_media := Some ms\<rparr>)), 5)"

definition mixed_world :: "(response option \<times> nat) list world" where
  "mixed_world =
     initial_world
       [listing [clip ''m1'', clip ''m2'', clip ''m3''],
        (Some (answer 500 ''first failure'' no_json), 5),
        (Some (answer 200 ''OK'' no_json), 5),
        (Some (answer 500 ''second failure'' no_json), 5)]"

definition failing_world :: "(response option \<times> nat) list world" where
  "failing_world =
     initial_world
       [listing [clip ''m1'', clip ''m2''],
        (Some (answer 500 ''first failure'' no_json), 5),
        (Some (answer 500 ''second failure'' no_json), 5)]"

section \<open>Unfolding the examples\<close>

text \<open>The definitions that the evaluation of a concrete run unfolds.\<close>

lemmas example_defs = scripted_def initial_world_def new_CacheAdapter_def working_store_def
  answer_def no_json_def CacheAdapter_get_def idb_get_def ok_def

lemmas adapter_defs = RemoteProjectsAdapter_get_def RemoteProjectsAdapter_set_def
  RemoteProjectsAdapter_remove_def fetch_def serve_def issue_def projectsAdapter_def

lemmas fan_out_defs = deleteProjectMedia_def loadAllMediaFiles_def fetch_def serve_def issue_def
  deleteMediaFile_resume_def deleteMediaFile_request_def loadAllMediaFiles_request_def
  CacheAdapter_get_def CacheAdapter_set_def CacheAdapter_invalidate_def
  idb_get_def idb_set_def idb_remove_def ok_def Let_def
  scripted_def initial_world_def new_CacheAdapter_def working_store_def answer_def no_json_def
  listing_def toMediaFile_def clip_def

section \<open>The cache adapter: freshness and eviction\<close>

text \<open>
  C1 (cache freshness).  Let a \<open>set\<close> at time \<open>t0\<close> have written \<open>v\<close> under \<open>key\<close>
  (whatever the cache held before), and let the store answer reads and removals.  A
  \<open>get\<close> at a time \<open>t \<le> t0 + ttl\<close> returns \<open>v\<close> and leaves the cache as it is; a \<open>get\<close>
  at a time \<open>t > t0 + ttl\<close> returns null, and afterwards the store has no entry under
  \<open>key\<close>.
\<close>

theorem cache_freshness:
  assumes "CacheAdapter_set c t0 key v ver = Inr c1"
    and "\<not> failing (idbAdapter c1) IdbGet"
    and "\<not> failing (idbAdapter c1) IdbRemove"
  shows "(t \<le> t0 + ttl c \<longrightarrow> CacheAdapter_get c1 t key = (Some v, c1)) \<and>
         (t > t0 + ttl c \<longrightarrow>
            fst (CacheAdapter_get c1 t key) = None \<and>
            entries (idbAdapter (snd (CacheAdapter_get c1 t key))) key = None)"
  using assms
  by (auto simp add: CacheAdapter_set_def CacheAdapter_get_def idb_set_def idb_get_def
      idb_remove_def split: if_splits)

text \<open>
  The scenario of the specification: an entry written at time 0 with one minute to live
  is served at 60000 and evicted by the read at 61000, which leaves the partition empty.
\<close>

theorem cache_freshness_witness:
  "CacheAdapter_set (new_CacheAdapter 60000) 0 ''scene-1'' ''tracks'' 1 = Inr written_cache \<and>
   CacheAdapter_get written_cache 60000 ''scene-1'' = (Some ''tracks'', written_cache) \<and>
   fst (CacheAdapter_get written_cache 61000 ''scene-1'') = None \<and>
   entries (idbAdapter (snd (CacheAdapter_get written_cache 61000 ''scene-1''))) ''scene-1'' = None \<and>
   entries (idbAdapter (snd (CacheAdapter_get written_cache 61000 ''scene-1''))) = Map.empty"
proof -
  have p: "entries (idbAdapter (snd (CacheAdapter_get written_cache 61000 ''scene-1''))) = Map.empty"
    by (simp add: CacheAdapter_get_def idb_get_def idb_remove_def written_cache_def)
  have s: "CacheAdapter_set (new_CacheAdapter 60000) 0 ''scene-1'' ''tracks'' 1 = Inr written_cache"
    by (simp add: CacheAdapter_set_def idb_set_def new_CacheAdapter_def working_store_def
        written_cache_def)
  have g: "\<not> failing (idbAdapter written_cache) IdbGet"
    and r: "\<not> failing (idbAdapter written_cache) IdbRemove"
    by (simp_all add: written_cache_def)
  have l: "ttl (new_CacheAdapter 60000 :: string CacheAdapter) = 60000"
    by (simp add: new_CacheAdapter_def)
  show ?thesis
    using s cache_freshness [OF s g r, of 60000] cache_freshness [OF s g r, of 61000] l p
    by simp
qed

text \<open>
  C9, as the code has it.  On an entry whose age exceeds the time to live (the store
  answering reads and removals), \<open>getWithMetadata\<close> reports a miss and removes the entry,
  leaving the cache exactly as \<open>get\<close> would; \<open>getRemainingTTL\<close> reports \<open>-1\<close> and leaves
  the cache, and so the stale entry, as it was.
\<close>

theorem stale_introspection:
  assumes "entries (idbAdapter c) key = Some e"
    and "t - timestamp e > ttl c"
    and "\<not> failing (idbAdapter c) IdbGet"
    and "\<not> failing (idbAdapter c) IdbRemove"
  shows "fst (CacheAdapter_getWithMetadata c t key) = None \<and>
         entries (idbAdapter (snd (CacheAdapter_getWithMetadata c t key))) key = None \<and>
         snd (CacheAdapter_getWithMetadata c t key) = snd (CacheAdapter_get c t key) \<and>
         CacheAdapter_getRemainingTTL c t key = (- 1, c)"
  using assms
  by (simp add: CacheAdapter_getWithMetadata_def CacheAdapter_get_def CacheAdapter_getRemainingTTL_def
      idb_get_def idb_remove_def Let_def)

theorem stale_introspection_witness:
  "fst (CacheAdapter_getWithMetadata written_cache 61000 ''scene-1'') = None \<and>
   entries (idbAdapter (snd (CacheAdapter_getWithMetadata written_cache 61000 ''scene-1'')))
     ''scene-1'' = None \<and>
   CacheAdapter_getRemainingTTL written_cache 61000 ''scene-1'' = (- 1, written_cache)"
proof -
  have e: "entries (idbAdapter written_cache) ''scene-1'' =
      Some \<lparr>data = ''tracks'', timestamp = 0, version = 1\<rparr>"
    by (simp add: written_cache_def)
  have s: "61000 - timestamp \<lparr>data = ''tracks'', timestamp = 0, version = 1\<rparr> > ttl written_cache"
    by (simp add: written_cache_def)
  have g: "\<not> failing (idbAdapter written_cache) IdbGet"
    and r: "\<not> failing (idbAdapter written_cache) IdbRemove"
    by (simp_all add: written_cache_def)
  show ?thesis
    using stale_introspection [OF e s g r] by blast
qed

text \<open>
  The claim C9 as stated fails for \<open>getRemainingTTL\<close>: called at 61000 on the entry
  written at 0 with one minute to live, it reports \<open>-1\<close>, and the stale entry is still in
  the store.
\<close>

theorem getRemainingTTL_evicts_counterexample:
  "61000 - timestamp (the (entries (idbAdapter written_cache) ''scene-1'')) > ttl written_cache \<and>
   fst (CacheAdapter_getRemainingTTL written_cache 61000 ''scene-1'') = - 1 \<and>
   entries (idbAdapter (snd (CacheAdapter_getRemainingTTL written_cache 61000 ''scene-1'')))
     ''scene-1'' = Some \<lparr>data = ''tracks'', timestamp = 0, version = 1\<rparr>"
  by (simp add: CacheAdapter_getRemainingTTL_def idb_get_def written_cache_def Let_def)

section \<open>Cache-aside loading of media lists and timelines\<close>

text \<open>A lookup that missed misses again at any later time, if nothing was written.\<close>

lemma miss_stays:
  assumes "fst (CacheAdapter_get c t key) = None" and "t \<le> t'"
  shows "fst (CacheAdapter_get (snd (CacheAdapter_get c t key)) t' key) = None"
  using assms
  by (auto simp add: CacheAdapter_get_def idb_get_def idb_remove_def
      split: sum.splits option.splits if_splits)

lemma media_miss_fetches:
  assumes "fst (CacheAdapter_get (mediaCache w) (now w) projectId) = None"
  shows "trace (snd (loadAllMediaFiles srv w projectId)) =
         trace w @ [Fetch (loadAllMediaFiles_request projectId)]"
  using assms
  by (auto simp add: loadAllMediaFiles_def fetch_def serve_def issue_def Let_def
      split: prod.splits option.splits sum.splits response_body.splits if_splits)

lemma timeline_miss_fetches:
  assumes "fst (CacheAdapter_get (timelinesCache w) (now w) sceneId) = None"
  shows "trace (snd (loadTimeline srv w sceneId)) =
         trace w @ [Fetch (loadTimeline_request sceneId)]"
  using assms
  by (auto simp add: loadTimeline_def fetch_def serve_def issue_def Let_def
      split: prod.splits option.splits sum.splits response_body.splits if_splits)

lemma media_empty:
  assumes miss: "fst (CacheAdapter_get (mediaCache w) (now w) projectId) = None"
    and answer: "srv (remote_state w) (loadAllMediaFiles_request projectId) = (Some r, dt, r')"
    and good: "ok r" "body r = Json j"
    and empty: "j_media j = None \<or> j_media j = Some []"
  shows "loadAllMediaFiles srv w projectId = (Inr [], media_unwritten w projectId dt r')"
  using assms
  by (auto simp add: loadAllMediaFiles_def fetch_def serve_def issue_def Let_def media_unwritten_def
      split: prod.splits option.splits)

lemma media_refetch:
  assumes miss: "fst (CacheAdapter_get (mediaCache w) (now w) projectId) = None"
    and later: "now w + int dt \<le> t'"
  shows "trace (snd (loadAllMediaFiles srv' ((media_unwritten w projectId dt r')\<lparr>now := t'\<rparr>) projectId)) =
         trace (media_unwritten w projectId dt r') @ [Fetch (loadAllMediaFiles_request projectId)]"
proof -
  let ?w = "(media_unwritten w projectId dt r')\<lparr>now := t'\<rparr>"
  have "now w \<le> t'" using later by simp
  from miss_stays [OF miss this]
  have "fst (CacheAdapter_get (mediaCache ?w) (now ?w) projectId) = None"
    by (simp add: media_unwritten_def)
  from media_miss_fetches [OF this, of srv']
  show ?thesis by (simp add: media_unwritten_def)
qed

lemma media_nonempty:
  assumes miss: "fst (CacheAdapter_get (mediaCache w) (now w) projectId) = None"
    and answer: "srv (remote_state w) (loadAllMediaFiles_request projectId) = (Some r, dt, r')"
    and good: "ok r" "body r = Json j"
    and some: "j_media j = Some ms" "ms \<noteq> []"
    and store: "\<not> failing (idbAdapter (mediaCache w)) IdbSet"
  shows "fst (loadAllMediaFiles srv w projectId) = Inr (map toMediaFile ms) \<and>
         entries (idbAdapter (mediaCache (snd (loadAllMediaFiles srv w projectId)))) projectId =
           Some \<lparr>data = ms, timestamp = now w + int dt, version = 1\<rparr>"
  using assms
  by (auto simp add: loadAllMediaFiles_def fetch_def serve_def issue_def Let_def
      CacheAdapter_set_def CacheAdapter_get_def idb_get_def idb_set_def idb_remove_def
      split: prod.splits option.splits sum.splits if_splits)

lemma timeline_absent:
  assumes miss: "fst (CacheAdapter_get (timelinesCache w) (now w) sceneId) = None"
    and answer: "srv (remote_state w) (loadTimeline_request sceneId) = (Some r, dt, r')"
    and absent: "status r = 404"
  shows "loadTimeline srv w sceneId = (Inr None, timeline_unwritten w sceneId dt r')"
  using assms
  by (auto simp add: loadTimeline_def fetch_def serve_def issue_def Let_def timeline_unwritten_def
      split: prod.splits option.splits)

lemma timeline_empty:
  assumes miss: "fst (CacheAdapter_get (timelinesCache w) (now w) sceneId) = None"
    and answer: "srv (remote_state w) (loadTimeline_request sceneId) = (Some r, dt, r')"
    and good: "ok r" "body r = Json j"
    and empty: "j_tracks j = None \<or> j_tracks j = Some []"
  shows "loadTimeline srv w sceneId = (Inr (Some []), timeline_unwritten w sceneId dt r')"
  using assms
  by (auto simp add: loadTimeline_def fetch_def serve_def issue_def Let_def timeline_unwritten_def
      ok_def split: prod.splits option.splits)

lemma timeline_refetch:
  assumes miss: "fst (CacheAdapter_get (timelinesCache w) (now w) sceneId) = None"
    and later: "now w + int dt \<le> t'"
  shows "trace (snd (loadTimeline srv' ((timeline_unwritten w sceneId dt r')\<lparr>now := t'\<rparr>) sceneId)) =
         trace (timeline_unwritten w sceneId dt r') @ [Fetch (loadTimeline_request sceneId)]"
proof -
  let ?w = "(timeline_unwritten w sceneId dt r')\<lparr>now := t'\<rparr>"
  have "now w \<le> t'" using later by simp
  from miss_stays [OF miss this]
  have "fst (CacheAdapter_get (timelinesCache ?w) (now ?w) sceneId) = None"
    by (simp add: timeline_unwritten_def)
  from timeline_miss_fetches [OF this, of srv']
  show ?thesis by (simp add: timeline_unwritten_def)
qed

lemma timeline_nonempty:
  assumes miss: "fst (CacheAdapter_get (timelinesCache w) (now w) sceneId) = None"
    and answer: "srv (remote_state w) (loadTimeline_request sceneId) = (Some r, dt, r')"
    and good: "ok r" "body r = Json j"
    and some: "j_tracks j = Some ts" "ts \<noteq> []"
    and store: "\<not> failing (idbAdapter (timelinesCache w)) IdbSet"
  shows "fst (loadTimeline srv w sceneId) = Inr (Some ts) \<and>
         entries (idbAdapter (timelinesCache (snd (loadTimeline srv w sceneId)))) sceneId =
           Some \<lparr>data = ts, timestamp = now w + int dt, version = 1\<rparr>"
  using assms
  by (auto simp add: loadTimeline_def fetch_def serve_def issue_def Let_def ok_def
      CacheAdapter_set_def CacheAdapter_get_def idb_get_def idb_set_def idb_remove_def
      split: prod.splits option.splits sum.splits if_splits)

text \<open>
  C3 (empty results are not cached).  On a cache miss, when the remote answers the media
  request with an empty or missing list, \<open>loadAllMediaFiles\<close> returns the empty list and
  writes nothing to the media cache, and the next read of the same project, at any later
  time, issues the request again.  A list that is not empty is written to the cache (when
  the store accepts the write).  The same holds of \<open>loadTimeline\<close>, both when the remote
  answers 404 (the result is null) and when it answers with no tracks.
\<close>

theorem empty_result_not_cached:
  "(fst (CacheAdapter_get (mediaCache w) (now w) projectId) = None \<and>
    srv (remote_state w) (loadAllMediaFiles_request projectId) = (Some r, dt, r') \<and>
    ok r \<and> body r = Json j \<longrightarrow>
      (j_media j = None \<or> j_media j = Some [] \<longrightarrow>
         loadAllMediaFiles srv w projectId = (Inr [], media_unwritten w projectId dt r') \<and>
         (\<forall>t' srv'. now w + int dt \<le> t' \<longrightarrow>
            trace (snd (loadAllMediaFiles srv'
                     ((media_unwritten w projectId dt r')\<lparr>now := t'\<rparr>) projectId)) =
            trace (media_unwritten w projectId dt r') @
              [Fetch (loadAllMediaFiles_request projectId)])) \<and>
      (\<forall>ms. j_media j = Some ms \<and> ms \<noteq> [] \<and> \<not> failing (idbAdapter (mediaCache w)) IdbSet \<longrightarrow>
         fst (loadAllMediaFiles srv w projectId) = Inr (map toMediaFile ms) \<and>
         entries (idbAdapter (mediaCache (snd (loadAllMediaFiles srv w projectId)))) projectId =
           Some \<lparr>data = ms, timestamp = now w + int dt, version = 1\<rparr>)) \<and>
   (fst (CacheAdapter_get (timelinesCache w) (now w) sceneId) = None \<and>
    srv (remote_state w) (loadTimeline_request sceneId) = (Some rt, dtt, rt') \<longrightarrow>
      (status rt = 404 \<longrightarrow>
         loadTimeline srv w sceneId = (Inr None, timeline_unwritten w sceneId dtt rt')) \<and>
      (ok rt \<and> body rt = Json jt \<and> (j_tracks jt = None \<or> j_tracks jt = Some []) \<longrightarrow>
         loadTimeline srv w sceneId = (Inr (Some []), timeline_unwritten w sceneId dtt rt')) \<and>
      (\<forall>t' srv'. now w + int dtt \<le> t' \<longrightarrow>
         trace (snd (loadTimeline srv'
                  ((timeline_unwritten w sceneId dtt rt')\<lparr>now := t'\<rparr>) sceneId)) =
         trace (timeline_unwritten w sceneId dtt rt') @ [Fetch (loadTimeline_request sceneId)]) \<and>
      (\<forall>ts. ok rt \<and> body rt = Json jt \<and> j_tracks jt = Some ts \<and> ts \<noteq> [] \<and>
            \<not> failing (idbAdapter (timelinesCache w)) IdbSet \<longrightarrow>
         fst (loadTimeline srv w sceneId) = Inr (Some ts) \<and>
         entries (idbAdapter (timelinesCache (snd (loadTimeline srv w sceneId)))) sceneId =
           Some \<lparr>data = ts, timestamp = now w + int dtt, version = 1\<rparr>))"
proof (intro conjI impI allI; (elim conjE)?)
  fix t' srv'
  assume "fst (CacheAdapter_get (mediaCache w) (now w) projectId) = None"
    "now w + int dt \<le> t'"
  then show "trace (snd (loadAllMediaFiles srv'
                     ((media_unwritten w projectId dt r')\<lparr>now := t'\<rparr>) projectId)) =
            trace (media_unwritten w projectId dt r') @
              [Fetch (loadAllMediaFiles_request projectId)]"
    by (rule media_refetch)
next
  fix t' srv'
  assume "fst (CacheAdapter_get (timelinesCache w) (now w) sceneId) = None"
    "now w + int dtt \<le> t'"
  then show "trace (snd (loadTimeline srv'
                  ((timeline_unwritten w sceneId dtt rt')\<lparr>now := t'\<rparr>) sceneId)) =
         trace (timeline_unwritten w sceneId dtt rt') @ [Fetch (loadTimeline_request sceneId)]"
    by (rule timeline_refetch)
qed (simp_all add: media_empty media_nonempty timeline_absent timeline_empty timeline_nonempty)


theorem empty_result_not_cached_witness:
  "fst (loadAllMediaFiles scripted
          (initial_world [(Some (answer 200 ''OK'' (no_json\<lparr>j_media := Some []\<rparr>)), 5)]) ''p1'') = Inr [] \<and>
   trace (snd (loadAllMediaFiles scripted
          (snd (loadAllMediaFiles scripted
             (initial_world [(Some (answer 200 ''OK'' (no_json\<lparr>j_media := Some []\<rparr>)), 5)]) ''p1''))
          ''p1'')) =
     [Fetch (loadAllMediaFiles_request ''p1''), Fetch (loadAllMediaFiles_request ''p1'')] \<and>
   entries (idbAdapter (mediaCache (snd (loadAllMediaFiles scripted
          (initial_world [(Some (answer 200 ''OK'' (no_json\<lparr>j_media := Some [clip ''m1'']\<rparr>)), 5)])
          ''p1'')))) ''p1'' =
     Some \<lparr>data = [clip ''m1''], timestamp = 5, version = 1\<rparr> \<and>
   fst (loadTimeline scripted
          (initial_world [(Some (answer 404 ''Not Found'' no_json), 5)]) ''s1'') = Inr None \<and>
   trace (snd (loadTimeline scripted
          (snd (loadTimeline scripted
             (initial_world [(Some (answer 404 ''Not Found'' no_json), 5)]) ''s1''))
          ''s1'')) =
     [Fetch (loadTimeline_request ''s1''), Fetch (loadTimeline_request ''s1'')] \<and>
   fst (loadTimeline scripted
          (initial_world [(Some (answer 200 ''OK'' (no_json\<lparr>j_tracks := Some []\<rparr>)), 5)]) ''s1'') =
     Inr (Some []) \<and>
   entries (idbAdapter (timelinesCache (snd (loadTimeline scripted
          (initial_world [(Some (answer 200 ''OK'' (no_json\<lparr>j_tracks := Some [main_track]\<rparr>)), 5)])
          ''s1'')))) ''s1'' =
     Some \<lparr>data = [main_track], timestamp = 5, version = 1\<rparr>"
proof -
  let ?e = "no_json\<lparr>j_media := Some []\<rparr>"
  let ?we = "initial_world [(Some (answer 200 ''OK'' ?e), 5::nat)]"
  let ?m = "no_json\<lparr>j_media := Some [clip ''m1'']\<rparr>"
  let ?wm = "initial_world [(Some (answer 200 ''OK'' ?m), 5::nat)]"
  let ?na = "answer 404 ''Not Found'' no_json"
  let ?wa = "initial_world [(Some ?na, 5::nat)]"
  let ?te = "no_json\<lparr>j_tracks := Some []\<rparr>"
  let ?wte = "initial_world [(Some (answer 200 ''OK'' ?te), 5::nat)]"
  let ?t = "no_json\<lparr>j_tracks := Some [main_track]\<rparr>"
  let ?wt = "initial_world [(Some (answer 200 ''OK'' ?t), 5::nat)]"
  have e: "fst (CacheAdapter_get (mediaCache ?we) (now ?we) ''p1'') = None"
    "scripted (remote_state ?we) (loadAllMediaFiles_request ''p1'') =
       (Some (answer 200 ''OK'' ?e), 5, [])"
    "ok (answer 200 ''OK'' ?e)" "body (answer 200 ''OK'' ?e) = Json ?e"
    "j_media ?e = Some []" "now ?we + int 5 \<le> 5"
    by (simp_all add: example_defs)
  have 1: "loadAllMediaFiles scripted ?we ''p1'' = (Inr [], media_unwritten ?we ''p1'' 5 [])"
    and 2: "trace (snd (loadAllMediaFiles scripted
                ((media_unwritten ?we ''p1'' 5 [])\<lparr>now := 5\<rparr>) ''p1'')) =
            trace (media_unwritten ?we ''p1'' 5 []) @ [Fetch (loadAllMediaFiles_request ''p1'')]"
    using empty_result_not_cached [where w = ?we and projectId = "''p1''" and srv = scripted
        and r = "answer 200 ''OK'' ?e" and dt = 5 and r' = "[]" and j = ?e] e
    by blast+
  have m: "fst (CacheAdapter_get (mediaCache ?wm) (now ?wm) ''p1'') = None"
    "scripted (remote_state ?wm) (loadAllMediaFiles_request ''p1'') =
       (Some (answer 200 ''OK'' ?m), 5, [])"
    "ok (answer 200 ''OK'' ?m)" "body (answer 200 ''OK'' ?m) = Json ?m"
    "j_media ?m = Some [clip ''m1'']" "[clip ''m1''] \<noteq> []"
    "\<not> failing (idbAdapter (mediaCache ?wm)) IdbSet" "now ?wm + int 5 = 5"
    by (simp_all add: example_defs)
  have 3: "entries (idbAdapter (mediaCache (snd (loadAllMediaFiles scripted ?wm ''p1'')))) ''p1'' =
      Some \<lparr>data = [clip ''m1''], timestamp = 5, version = 1\<rparr>"
    using empty_result_not_cached [where w = ?wm and projectId = "''p1''" and srv = scripted
        and r = "answer 200 ''OK'' ?m" and dt = 5 and r' = "[]" and j = ?m] m(1-7)
    unfolding m(8) by blast
  have a: "fst (CacheAdapter_get (timelinesCache ?wa) (now ?wa) ''s1'') = None"
    "scripted (remote_state ?wa) (loadTimeline_request ''s1'') = (Some ?na, 5, [])"
    "status ?na = 404" "now ?wa + int 5 \<le> 5"
    by (simp_all add: example_defs)
  have 4: "loadTimeline scripted ?wa ''s1'' = (Inr None, timeline_unwritten ?wa ''s1'' 5 [])"
    and 5: "trace (snd (loadTimeline scripted
                ((timeline_unwritten ?wa ''s1'' 5 [])\<lparr>now := 5\<rparr>) ''s1'')) =
            trace (timeline_unwritten ?wa ''s1'' 5 []) @ [Fetch (loadTimeline_request ''s1'')]"
    using empty_result_not_cached [where w = ?wa and sceneId = "''s1''" and srv = scripted
        and rt = ?na and dtt = 5 and rt' = "[]"] a
    by blast+
  have te: "fst (CacheAdapter_get (timelinesCache ?wte) (now ?wte) ''s1'') = None"
    "scripted (remote_state ?wte) (loadTimeline_request ''s1'') =
       (Some (answer 200 ''OK'' ?te), 5, [])"
    "ok (answer 200 ''OK'' ?te)" "body (answer 200 ''OK'' ?te) = Json ?te"
    "j_tracks ?te = Some []"
    by (simp_all add: example_defs)
  have 6: "loadTimeline scripted ?wte ''s1'' = (Inr (Some []), timeline_unwritten ?wte ''s1'' 5 [])"
    using empty_result_not_cached [where w = ?wte and sceneId = "''s1''" and srv = scripted
        and rt = "answer 200 ''OK'' ?te" and dtt = 5 and rt' = "[]" and jt = ?te] te
    by blast
  have t: "fst (CacheAdapter_get (timelinesCache ?wt) (now ?wt) ''s1'') = None"
    "scripted (remote_state ?wt) (loadTimeline_request ''s1'') =
       (Some (answer 200 ''OK'' ?t), 5, [])"
    "ok (answer 200 ''OK'' ?t)" "body (answer 200 ''OK'' ?t) = Json ?t"
    "j_tracks ?t = Some [main_track]" "[main_track] \<noteq> []"
    "\<not> failing (idbAdapter (timelinesCache ?wt)) IdbSet" "now ?wt + int 5 = 5"
    by (simp_all add: example_defs)
  have 7: "entries (idbAdapter (timelinesCache (snd (loadTimeline scripted ?wt ''s1'')))) ''s1'' =
      Some \<lparr>data = [main_track], timestamp = 5, version = 1\<rparr>"
    using empty_result_not_cached [where w = ?wt and sceneId = "''s1''" and srv = scripted
        and rt = "answer 200 ''OK'' ?t" and dtt = 5 and rt' = "[]" and jt = ?t] t(1-7)
    unfolding t(8) by blast
  have n: "(media_unwritten ?we ''p1'' 5 [])\<lparr>now := 5\<rparr> = media_unwritten ?we ''p1'' 5 []"
    "(timeline_unwritten ?wa ''s1'' 5 [])\<lparr>now := 5\<rparr> = timeline_unwritten ?wa ''s1'' 5 []"
    by (simp_all add: media_unwritten_def timeline_unwritten_def initial_world_def)
  have tr: "trace (media_unwritten ?we ''p1'' 5 []) = [Fetch (loadAllMediaFiles_request ''p1'')]"
    "trace (timeline_unwritten ?wa ''s1'' 5 []) = [Fetch (loadTimeline_request ''s1'')]"
    by (simp_all add: media_unwritten_def timeline_unwritten_def initial_world_def)
  show ?thesis
    using 1 2 3 4 5 6 7 by (simp add: n tr)
qed

text \<open>
  C10.  \<open>loadTimeline\<close> returns null exactly when the lookup in the cache misses and the
  remote answers 404; on a miss, a successful response whose track list is empty yields
  the empty list, not null.
\<close>

theorem loadTimeline_null_only_on_404:
  "(fst (loadTimeline srv w sceneId) = Inr None \<longleftrightarrow>
      fst (CacheAdapter_get (timelinesCache w) (now w) sceneId) = None \<and>
      (\<exists>r. fst (srv (remote_state w) (loadTimeline_request sceneId)) = Some r \<and> status r = 404)) \<and>
   (fst (CacheAdapter_get (timelinesCache w) (now w) sceneId) = None \<and>
    fst (srv (remote_state w) (loadTimeline_request sceneId)) = Some r \<and>
    ok r \<and> body r = Json j \<and> j_tracks j = Some [] \<longrightarrow>
      fst (loadTimeline srv w sceneId) = Inr (Some []))"
  by (auto simp add: loadTimeline_def fetch_def serve_def issue_def Let_def ok_def
      split: prod.splits option.splits sum.splits response_body.splits if_splits)

theorem loadTimeline_null_only_on_404_witness:
  "fst (loadTimeline scripted
          (initial_world [(Some (answer 404 ''Not Found'' no_json), 5)]) ''s1'') = Inr None \<and>
   fst (loadTimeline scripted
          (initial_world [(Some (answer 200 ''OK'' (no_json\<lparr>j_tracks := Some []\<rparr>)), 5)]) ''s1'') =
     Inr (Some [])"
proof -
  let ?wa = "initial_world [(Some (answer 404 ''Not Found'' no_json), 5)]"
  let ?te = "no_json\<lparr>j_tracks := Some []\<rparr>"
  let ?wte = "initial_world [(Some (answer 200 ''OK'' ?te), 5)]"
  have m: "fst (CacheAdapter_get (timelinesCache ?wa) (now ?wa) ''s1'') = None"
    "fst (CacheAdapter_get (timelinesCache ?wte) (now ?wte) ''s1'') = None"
    by (simp_all add: initial_world_def new_CacheAdapter_def working_store_def
        CacheAdapter_get_def idb_get_def)
  have a: "fst (scripted (remote_state ?wa) (loadTimeline_request ''s1'')) =
             Some (answer 404 ''Not Found'' no_json)"
    "status (answer 404 ''Not Found'' no_json) = 404"
    by (simp_all add: scripted_def initial_world_def answer_def)
  have b: "fst (scripted (remote_state ?wte) (loadTimeline_request ''s1'')) =
             Some (answer 200 ''OK'' ?te)"
    "ok (answer 200 ''OK'' ?te)" "body (answer 200 ''OK'' ?te) = Json ?te" "j_tracks ?te = Some []"
    by (simp_all add: scripted_def initial_world_def answer_def ok_def)
  have 1: "fst (loadTimeline scripted ?wa ''s1'') = Inr None"
    using loadTimeline_null_only_on_404 [of scripted ?wa "''s1''"] m(1) a by blast
  have 2: "fst (loadTimeline scripted ?wte ''s1'') = Inr (Some [])"
    using loadTimeline_null_only_on_404 [of scripted ?wte "''s1''" "answer 200 ''OK'' ?te" ?te]
      m(2) b by blast
  show ?thesis using 1 2 by simp
qed

section \<open>The remote entity adapter\<close>

text \<open>\<^verbatim>\<open>get\<close> issues exactly one request.\<close>

lemma get_trace:
  "trace (snd (RemoteProjectsAdapter_get a srv w i)) =
     trace w @ [Fetch \<lparr>req_method = GET, req_url = baseUrl a @ ''/'' @ i, req_body = NoBody\<rparr>]"
  by (auto simp add: RemoteProjectsAdapter_get_def fetch_def serve_def issue_def
      split: prod.splits option.splits response_body.splits)

text \<open>
  C6.  \<open>set\<close> first performs a \<open>get\<close>.  When the \<open>get\<close> returns a project, exactly one
  more request is issued, a PUT for that id; when it returns null, exactly one more, a
  POST to the base URL; each carries the value.  The write's failure (a response that is
  not ok, or none) is the error of \<open>set\<close>.  When the \<open>get\<close> itself fails, its error is
  the error of \<open>set\<close>, and no write is issued.
\<close>

theorem set_checks_then_writes:
  "(\<forall>p w1. RemoteProjectsAdapter_get a srv w i = (Inr (Some p), w1) \<longrightarrow>
      trace (snd (RemoteProjectsAdapter_set a srv w i v)) =
        trace w @
          [Fetch \<lparr>req_method = GET, req_url = baseUrl a @ ''/'' @ i, req_body = NoBody\<rparr>,
           Fetch \<lparr>req_method = PUT, req_url = baseUrl a @ ''/'' @ i, req_body = ProjectBody v\<rparr>] \<and>
      fst (RemoteProjectsAdapter_set a srv w i v) =
        (case fst (srv (remote_state w1)
                 \<lparr>req_method = PUT, req_url = baseUrl a @ ''/'' @ i, req_body = ProjectBody v\<rparr>) of
           None \<Rightarrow> Inl NetworkError
         | Some r \<Rightarrow>
             if ok r then Inr ()
             else Inl (HttpError (''Failed to update project: '' @ statusText r)))) \<and>
   (\<forall>w1. RemoteProjectsAdapter_get a srv w i = (Inr None, w1) \<longrightarrow>
      trace (snd (RemoteProjectsAdapter_set a srv w i v)) =
        trace w @
          [Fetch \<lparr>req_method = GET, req_url = baseUrl a @ ''/'' @ i, req_body = NoBody\<rparr>,
           Fetch \<lparr>req_method = POST, req_url = baseUrl a, req_body = ProjectBody v\<rparr>] \<and>
      fst (RemoteProjectsAdapter_set a srv w i v) =
        (case fst (srv (remote_state w1)
                 \<lparr>req_method = POST, req_url = baseUrl a, req_body = ProjectBody v\<rparr>) of
           None \<Rightarrow> Inl NetworkError
         | Some r \<Rightarrow>
             if ok r then Inr ()
             else Inl (HttpError (''Failed to create project: '' @ statusText r)))) \<and>
   (\<forall>e w1. RemoteProjectsAdapter_get a srv w i = (Inl e, w1) \<longrightarrow>
      RemoteProjectsAdapter_set a srv w i v = (Inl e, w1) \<and>
      trace w1 =
        trace w @
          [Fetch \<lparr>req_method = GET, req_url = baseUrl a @ ''/'' @ i, req_body = NoBody\<rparr>])"
proof (intro conjI allI impI)
  fix p w1
  assume g: "RemoteProjectsAdapter_get a srv w i = (Inr (Some p), w1)"
  have t: "trace w1 = trace w @ [Fetch \<lparr>req_method = GET, req_url = baseUrl a @ ''/'' @ i, req_body = NoBody\<rparr>]"
    using get_trace [of a srv w i] g by simp
  show "trace (snd (RemoteProjectsAdapter_set a srv w i v)) =
        trace w @
          [Fetch \<lparr>req_method = GET, req_url = baseUrl a @ ''/'' @ i, req_body = NoBody\<rparr>,
           Fetch \<lparr>req_method = PUT, req_url = baseUrl a @ ''/'' @ i, req_body = ProjectBody v\<rparr>]"
    using g t
    by (auto simp add: RemoteProjectsAdapter_set_def fetch_def serve_def issue_def
        split: prod.splits option.splits)
  show "fst (RemoteProjectsAdapter_set a srv w i v) =
        (case fst (srv (remote_state w1)
                 \<lparr>req_method = PUT, req_url = baseUrl a @ ''/'' @ i, req_body = ProjectBody v\<rparr>) of
           None \<Rightarrow> Inl NetworkError
         | Some r \<Rightarrow>
             if ok r then Inr ()
             else Inl (HttpError (''Failed to update project: '' @ statusText r)))"
    using g
    by (auto simp add: RemoteProjectsAdapter_set_def fetch_def serve_def issue_def
        split: prod.splits option.splits)
next
  fix w1
  assume g: "RemoteProjectsAdapter_get a srv w i = (Inr None, w1)"
  have t: "trace w1 = trace w @ [Fetch \<lparr>req_method = GET, req_url = baseUrl a @ ''/'' @ i, req_body = NoBody\<rparr>]"
    using get_trace [of a srv w i] g by simp
  show "trace (snd (RemoteProjectsAdapter_set a srv w i v)) =
        trace w @
          [Fetch \<lparr>req_method = GET, req_url = baseUrl a @ ''/'' @ i, req_body = NoBody\<rparr>,
           Fetch \<lparr>req_method = POST, req_url = baseUrl a, req_body = ProjectBody v\<rparr>]"
    using g t
    by (auto simp add: RemoteProjectsAdapter_set_def fetch_def serve_def issue_def
        split: prod.splits option.splits)
  show "fst (RemoteProjectsAdapter_set a srv w i v) =
        (case fst (srv (remote_state w1)
                 \<lparr>req_method = POST, req_url = baseUrl a, req_body = ProjectBody v\<rparr>) of
           None \<Rightarrow> Inl NetworkError
         | Some r \<Rightarrow>
             if ok r then Inr ()
             else Inl (HttpError (''Failed to create project: '' @ statusText r)))"
    using g
    by (auto simp add: RemoteProjectsAdapter_set_def fetch_def serve_def issue_def
        split: prod.splits option.splits)
next
  fix e w1
  assume g: "RemoteProjectsAdapter_get a srv w i = (Inl e, w1)"
  show "RemoteProjectsAdapter_set a srv w i v = (Inl e, w1)"
    using g by (simp add: RemoteProjectsAdapter_set_def)
  show "trace w1 = trace w @ [Fetch \<lparr>req_method = GET, req_url = baseUrl a @ ''/'' @ i, req_body = NoBody\<rparr>]"
    using get_trace [of a srv w i] g by simp
qed

theorem set_checks_then_writes_witness:
  "trace (snd (RemoteProjectsAdapter_set projectsAdapter scripted
        (initial_world [(Some (answer 404 ''Not Found'' no_json), 5),
                        (Some (answer 200 ''OK'' no_json), 5)]) ''p1'' demo_serialized)) =
     [Fetch \<lparr>req_method = GET, req_url = ''/api/projects/p1'', req_body = NoBody\<rparr>,
      Fetch \<lparr>req_method = POST, req_url = ''/api/projects'', req_body = ProjectBody demo_serialized\<rparr>] \<and>
   trace (snd (RemoteProjectsAdapter_set projectsAdapter scripted
        (initial_world [(Some (answer 200 ''OK'' (no_json\<lparr>j_project := Some demo_serialized\<rparr>)), 5),
                        (Some (answer 500 ''Internal Server Error'' no_json), 5)])
        ''p1'' demo_serialized)) =
     [Fetch \<lparr>req_method = GET, req_url = ''/api/projects/p1'', req_body = NoBody\<rparr>,
      Fetch \<lparr>req_method = PUT, req_url = ''/api/projects/p1'', req_body = ProjectBody demo_serialized\<rparr>] \<and>
   fst (RemoteProjectsAdapter_set projectsAdapter scripted
        (initial_world [(Some (answer 200 ''OK'' (no_json\<lparr>j_project := Some demo_serialized\<rparr>)), 5),
                        (Some (answer 500 ''Internal Server Error'' no_json), 5)])
        ''p1'' demo_serialized) =
     Inl (HttpError ''Failed to update project: Internal Server Error'') \<and>
   RemoteProjectsAdapter_set projectsAdapter scripted
        (initial_world [(Some (answer 500 ''Internal Server Error'' no_json), 5)])
        ''p1'' demo_serialized =
     (Inl (HttpError ''Failed to fetch project: Internal Server Error''),
      (initial_world [])\<lparr>now := 5,
         trace := [Fetch \<lparr>req_method = GET, req_url = ''/api/projects/p1'', req_body = NoBody\<rparr>]\<rparr>)"
proof -
  let ?post = "initial_world [(Some (answer 404 ''Not Found'' no_json), 5::nat),
                              (Some (answer 200 ''OK'' no_json), 5)]"
  let ?put = "initial_world
      [(Some (answer 200 ''OK'' (no_json\<lparr>j_project := Some demo_serialized\<rparr>)), 5::nat),
       (Some (answer 500 ''Internal Server Error'' no_json), 5)]"
  let ?bad = "initial_world [(Some (answer 500 ''Internal Server Error'' no_json), 5::nat)]"
  have g1: "RemoteProjectsAdapter_get projectsAdapter scripted ?post ''p1'' =
      (Inr None, snd (RemoteProjectsAdapter_get projectsAdapter scripted ?post ''p1''))"
    by (simp add: adapter_defs example_defs)
  have g2: "RemoteProjectsAdapter_get projectsAdapter scripted ?put ''p1'' =
      (Inr (Some demo_serialized), snd (RemoteProjectsAdapter_get projectsAdapter scripted ?put ''p1''))"
    by (simp add: adapter_defs example_defs)
  have r2: "fst (scripted (remote_state (snd (RemoteProjectsAdapter_get projectsAdapter scripted ?put ''p1'')))
        \<lparr>req_method = PUT, req_url = baseUrl projectsAdapter @ ''/'' @ ''p1'',
          req_body = ProjectBody demo_serialized\<rparr>) =
      Some (answer 500 ''Internal Server Error'' no_json)"
    by (simp add: adapter_defs example_defs)
  have g3: "RemoteProjectsAdapter_get projectsAdapter scripted ?bad ''p1'' =
      (Inl (HttpError ''Failed to fetch project: Internal Server Error''),
       (initial_world [])\<lparr>now := 5,
         trace := [Fetch \<lparr>req_method = GET, req_url = ''/api/projects/p1'', req_body = NoBody\<rparr>]\<rparr>)"
    by (simp add: adapter_defs example_defs)
  have u: "baseUrl projectsAdapter = ''/api/projects''" "trace ?post = []" "trace ?put = []"
    "\<not> ok (answer 500 ''Internal Server Error'' no_json)"
    "statusText (answer 500 ''Internal Server Error'' no_json) = ''Internal Server Error''"
    by (simp_all add: projectsAdapter_def initial_world_def answer_def ok_def)
  note T1 = set_checks_then_writes [of projectsAdapter scripted ?post "''p1''" demo_serialized]
  note T2 = set_checks_then_writes [of projectsAdapter scripted ?put "''p1''" demo_serialized]
  note T3 = set_checks_then_writes [of projectsAdapter scripted ?bad "''p1''" demo_serialized]
  have 1: "trace (snd (RemoteProjectsAdapter_set projectsAdapter scripted ?post ''p1'' demo_serialized)) =
     [Fetch \<lparr>req_method = GET, req_url = ''/api/projects/p1'', req_body = NoBody\<rparr>,
      Fetch \<lparr>req_method = POST, req_url = ''/api/projects'', req_body = ProjectBody demo_serialized\<rparr>]"
    using T1 g1 u by simp
  have 2: "trace (snd (RemoteProjectsAdapter_set projectsAdapter scripted ?put ''p1'' demo_serialized)) =
     [Fetch \<lparr>req_method = GET, req_url = ''/api/projects/p1'', req_body = NoBody\<rparr>,
      Fetch \<lparr>req_method = PUT, req_url = ''/api/projects/p1'', req_body = ProjectBody demo_serialized\<rparr>]"
    using T2 g2 u by simp
  have 3: "fst (RemoteProjectsAdapter_set projectsAdapter scripted ?put ''p1'' demo_serialized) =
     Inl (HttpError ''Failed to update project: Internal Server Error'')"
    using T2 g2 r2 u by simp
  have 4: "RemoteProjectsAdapter_set projectsAdapter scripted ?bad ''p1'' demo_serialized =
     (Inl (HttpError ''Failed to fetch project: Internal Server Error''),
      (initial_world [])\<lparr>now := 5,
         trace := [Fetch \<lparr>req_method = GET, req_url = ''/api/projects/p1'', req_body = NoBody\<rparr>]\<rparr>)"
    using T3 g3 by blast
  show ?thesis using 1 2 3 4 by blast
qed

lemma remove_outcome:
  assumes "fst (srv (remote_state w)
             \<lparr>req_method = DELETE, req_url = baseUrl a @ ''/'' @ i, req_body = NoBody\<rparr>) = Some r"
  shows "fst (RemoteProjectsAdapter_remove a srv w i) =
           (if ok r \<or> status r = 404 then Inr ()
            else Inl (HttpError (''Failed to delete project: '' @ statusText r)))"
  using assms
  by (auto simp add: RemoteProjectsAdapter_remove_def fetch_def serve_def issue_def
      split: prod.splits option.splits)

lemma deleteMediaFile_outcome:
  assumes "fst (srv (remote_state w) (deleteMediaFile_request i)) = Some r"
  shows "fst (deleteMediaFile srv w projectId i) =
           (if ok r \<or> status r = 404 then Inr ()
            else Inl (HttpError (''Failed to delete media: '' @ statusText r)))"
  using assms
  by (auto simp add: deleteMediaFile_def deleteMediaFile_resume_def serve_def issue_def
      split: prod.splits option.splits)

lemma media_api_delete:
  assumes "\<not> db_down (remote_state w)"
  shows "fst (deleteMediaFile (media_api dt) w projectId i) = Inr () \<and>
         media_rows (remote_state (snd (deleteMediaFile (media_api dt) w projectId i))) i = None \<and>
         \<not> db_down (remote_state (snd (deleteMediaFile (media_api dt) w projectId i)))"
  using assms
  by (auto simp add: deleteMediaFile_def deleteMediaFile_resume_def serve_def issue_def
      media_api_def media_DELETE_def deleteMediaFile_request_def ok_def
      split: prod.splits option.splits)


text \<open>
  C8 (idempotent delete).  \<open>remove\<close> of the project adapter and \<open>deleteMediaFile\<close>
  succeed when the remote answers the DELETE with a success or with 404, and throw an
  error that carries the status text on any other status.  So two deletions of the same
  id in sequence both succeed when the remote answers each with a success or 404; against
  the server's own media route, with its database answering, they do, whether or not the
  id exists.
\<close>

theorem idempotent_delete:
  "(fst (srv (remote_state w)
       \<lparr>req_method = DELETE, req_url = baseUrl a @ ''/'' @ i, req_body = NoBody\<rparr>) = Some r \<longrightarrow>
      fst (RemoteProjectsAdapter_remove a srv w i) =
        (if ok r \<or> status r = 404 then Inr ()
         else Inl (HttpError (''Failed to delete project: '' @ statusText r)))) \<and>
   (fst (srv (remote_state w) (deleteMediaFile_request i)) = Some r \<longrightarrow>
      fst (deleteMediaFile srv w projectId i) =
        (if ok r \<or> status r = 404 then Inr ()
         else Inl (HttpError (''Failed to delete media: '' @ statusText r)))) \<and>
   (fst (srv (remote_state w)
       \<lparr>req_method = DELETE, req_url = baseUrl a @ ''/'' @ i, req_body = NoBody\<rparr>) = Some r1 \<and>
    (ok r1 \<or> status r1 = 404) \<and>
    fst (srv (remote_state (snd (RemoteProjectsAdapter_remove a srv w i)))
       \<lparr>req_method = DELETE, req_url = baseUrl a @ ''/'' @ i, req_body = NoBody\<rparr>) = Some r2 \<and>
    (ok r2 \<or> status r2 = 404) \<longrightarrow>
      fst (RemoteProjectsAdapter_remove a srv w i) = Inr () \<and>
      fst (RemoteProjectsAdapter_remove a srv (snd (RemoteProjectsAdapter_remove a srv w i)) i) =
        Inr ()) \<and>
   (\<not> db_down (remote_state wm) \<longrightarrow>
      fst (deleteMediaFile (media_api dt) wm projectId i) = Inr () \<and>
      fst (deleteMediaFile (media_api dt) (snd (deleteMediaFile (media_api dt) wm projectId i))
             projectId i) = Inr ())"
proof (intro conjI impI; (elim conjE)?)
  assume "\<not> db_down (remote_state wm)"
  with media_api_delete [of wm dt projectId i]
  have "\<not> db_down (remote_state (snd (deleteMediaFile (media_api dt) wm projectId i)))"
    by simp
  from media_api_delete [OF this, of dt projectId i]
  show "fst (deleteMediaFile (media_api dt) (snd (deleteMediaFile (media_api dt) wm projectId i))
             projectId i) = Inr ()"
    by simp
qed (simp_all add: remove_outcome deleteMediaFile_outcome media_api_delete)

theorem idempotent_delete_witness:
  "fst (RemoteProjectsAdapter_remove projectsAdapter scripted
          (initial_world [(Some (answer 404 ''Not Found'' no_json), 5)]) ''p1'') = Inr () \<and>
   fst (RemoteProjectsAdapter_remove projectsAdapter scripted
          (initial_world [(Some (answer 500 ''Internal Server Error'' no_json), 5)]) ''p1'') =
     Inl (HttpError ''Failed to delete project: Internal Server Error'') \<and>
   fst (deleteMediaFile scripted
          (initial_world [(Some (answer 403 ''Forbidden'' no_json), 5)]) ''p1'' ''m1'') =
     Inl (HttpError ''Failed to delete media: Forbidden'') \<and>
   fst (RemoteProjectsAdapter_remove projectsAdapter scripted
          (initial_world [(Some (answer 200 ''OK'' no_json), 5),
                          (Some (answer 404 ''Not Found'' no_json), 5)]) ''p1'') = Inr () \<and>
   fst (RemoteProjectsAdapter_remove projectsAdapter scripted
          (snd (RemoteProjectsAdapter_remove projectsAdapter scripted
             (initial_world [(Some (answer 200 ''OK'' no_json), 5),
                             (Some (answer 404 ''Not Found'' no_json), 5)]) ''p1'')) ''p1'') = Inr () \<and>
   fst (deleteMediaFile (media_api 5) media_world ''p1'' ''m1'') = Inr () \<and>
   fst (deleteMediaFile (media_api 5)
          (snd (deleteMediaFile (media_api 5) media_world ''p1'' ''m1'')) ''p1'' ''m1'') = Inr () \<and>
   fst (deleteMediaFile (media_api 5) media_world ''p1'' ''nothing'') = Inr ()"
proof -
  let ?nf = "answer 404 ''Not Found'' no_json"
  let ?ise = "answer 500 ''Internal Server Error'' no_json"
  let ?fb = "answer 403 ''Forbidden'' no_json"
  let ?okr = "answer 200 ''OK'' no_json"
  let ?w2 = "initial_world [(Some ?okr, 5::nat), (Some ?nf, 5)]"
  let ?del = "\<lparr>req_method = DELETE, req_url = baseUrl projectsAdapter @ ''/'' @ ''p1'',
               req_body = NoBody\<rparr>"
  have f: "ok ?okr" "status ?nf = 404" "\<not> ok ?nf" "\<not> ok ?ise" "status ?ise \<noteq> 404"
    "\<not> ok ?fb" "status ?fb \<noteq> 404" "statusText ?ise = ''Internal Server Error''"
    "statusText ?fb = ''Forbidden''"
    by (simp_all add: answer_def ok_def)
  have a: "fst (scripted (remote_state (initial_world [(Some ?nf, 5::nat)])) ?del) = Some ?nf"
    "fst (scripted (remote_state (initial_world [(Some ?ise, 5::nat)])) ?del) = Some ?ise"
    "fst (scripted (remote_state (initial_world [(Some ?fb, 5::nat)])) (deleteMediaFile_request ''m1'')) =
       Some ?fb"
    "fst (scripted (remote_state ?w2) ?del) = Some ?okr"
    by (simp_all add: scripted_def initial_world_def)
  have b: "fst (scripted (remote_state (snd (RemoteProjectsAdapter_remove projectsAdapter scripted ?w2 ''p1'')))
              ?del) = Some ?nf"
    by (simp add: adapter_defs example_defs)
  have d: "\<not> db_down (remote_state media_world)"
    by (simp add: media_world_def initial_world_def)
  have 1: "fst (RemoteProjectsAdapter_remove projectsAdapter scripted
          (initial_world [(Some ?nf, 5)]) ''p1'') = Inr ()"
    using idempotent_delete [where srv = scripted and w = "initial_world [(Some ?nf, 5)]"
        and a = projectsAdapter and i = "''p1''" and r = ?nf] a(1) f
    by simp
  have 2: "fst (RemoteProjectsAdapter_remove projectsAdapter scripted
          (initial_world [(Some ?ise, 5)]) ''p1'') =
      Inl (HttpError ''Failed to delete project: Internal Server Error'')"
    using idempotent_delete [where srv = scripted and w = "initial_world [(Some ?ise, 5)]"
        and a = projectsAdapter and i = "''p1''" and r = ?ise] a(2) f
    by simp
  have 3: "fst (deleteMediaFile scripted (initial_world [(Some ?fb, 5)]) ''p1'' ''m1'') =
      Inl (HttpError ''Failed to delete media: Forbidden'')"
    using idempotent_delete [where srv = scripted and w = "initial_world [(Some ?fb, 5)]"
        and i = "''m1''" and r = ?fb and projectId = "''p1''"] a(3) f
    by simp
  have 4: "fst (RemoteProjectsAdapter_remove projectsAdapter scripted ?w2 ''p1'') = Inr () \<and>
      fst (RemoteProjectsAdapter_remove projectsAdapter scripted
          (snd (RemoteProjectsAdapter_remove projectsAdapter scripted ?w2 ''p1'')) ''p1'') = Inr ()"
    using idempotent_delete [where srv = scripted and w = ?w2 and a = projectsAdapter
        and i = "''p1''" and ?r1.0 = ?okr and ?r2.0 = ?nf] a(4) b f
    by blast
  have 5: "fst (deleteMediaFile (media_api 5) media_world ''p1'' ''m1'') = Inr () \<and>
      fst (deleteMediaFile (media_api 5)
          (snd (deleteMediaFile (media_api 5) media_world ''p1'' ''m1'')) ''p1'' ''m1'') = Inr ()"
    using idempotent_delete [where wm = media_world and dt = 5 and projectId = "''p1''"
        and i = "''m1''"] d
    by blast
  have 6: "fst (deleteMediaFile (media_api 5) media_world ''p1'' ''nothing'') = Inr ()"
    using idempotent_delete [where wm = media_world and dt = 5 and projectId = "''p1''"
        and i = "''nothing''"] d
    by blast
  show ?thesis using 1 2 3 4 5 6 by blast
qed

section \<open>Saving and loading a project\<close>

lemma serializeScene_round_trip:
  "serializeScene s = Inr x \<Longrightarrow> deserializeScene x = s"
  by (cases "scene_createdAt s"; cases "scene_updatedAt s")
     (auto simp add: serializeScene_def deserializeScene_def toISOString_def new_Date_def)

lemma serializeScenes_round_trip:
  "serializeScenes ss = Inr xs \<Longrightarrow> map deserializeScene xs = ss"
proof (induction ss arbitrary: xs)
  case Nil
  then show ?case by simp
next
  case (Cons s ss)
  then show ?case
    by (auto simp add: serializeScene_round_trip split: sum.splits)
qed

lemma serializeProject_round_trip:
  assumes "serializeProject p = Inr sp"
  shows "deserializeProject sp = p"
proof -
  obtain xs c u where xs: "serializeScenes (scenes p) = Inr xs"
    and c: "toISOString (createdAt p) = Inr c" and u: "toISOString (updatedAt p) = Inr u"
    using assms by (auto simp add: serializeProject_def split: sum.splits)
  have d: "new_Date c = createdAt p" "new_Date u = updatedAt p"
    using c u by (auto simp add: toISOString_def new_Date_def split: date.splits)
  show ?thesis
    using assms xs c u d serializeScenes_round_trip [OF xs]
    by (auto simp add: serializeProject_def deserializeProject_def)
qed

lemma set_last_request:
  assumes "RemoteProjectsAdapter_set a srv w i v = (Inr (), w1)"
  shows "last (trace w1) =
           Fetch \<lparr>req_method = PUT, req_url = baseUrl a @ ''/'' @ i, req_body = ProjectBody v\<rparr> \<or>
         last (trace w1) =
           Fetch \<lparr>req_method = POST, req_url = baseUrl a, req_body = ProjectBody v\<rparr>"
  using assms
  by (auto simp add: RemoteProjectsAdapter_set_def fetch_def serve_def issue_def
      split: prod.splits option.splits sum.splits if_splits)

text \<open>
  C7 (round trip).  When \<open>saveProject\<close> has succeeded, the project was serialized, and the
  serialized value is what the last request (the PUT or POST) carried to the remote.
  Whenever the project adapter's \<open>get\<close> returns that stored value, \<open>loadProject\<close> returns
  the project that was saved: the scenes, the current scene and every other field.
\<close>

theorem project_round_trip:
  assumes "saveProject srv w p = (Inr (), w1)"
  shows "\<exists>sp. serializeProject p = Inr sp \<and>
           (last (trace w1) =
              Fetch \<lparr>req_method = PUT, req_url = ''/api/projects/'' @ project_id p,
                     req_body = ProjectBody sp\<rparr> \<or>
            last (trace w1) =
              Fetch \<lparr>req_method = POST, req_url = ''/api/projects'', req_body = ProjectBody sp\<rparr>) \<and>
           (\<forall>srv' w' w2.
              RemoteProjectsAdapter_get projectsAdapter srv' w' (project_id p) = (Inr (Some sp), w2) \<longrightarrow>
              loadProject srv' w' (project_id p) = (Inr (Some p), w2))"
proof -
  obtain sp where sp: "serializeProject p = Inr sp"
    and st: "RemoteProjectsAdapter_set projectsAdapter srv w (project_id p) sp = (Inr (), w1)"
    using assms by (auto simp add: saveProject_def split: sum.splits)
  have "deserializeProject sp = p"
    using sp by (rule serializeProject_round_trip)
  then have "\<forall>srv' w' w2.
      RemoteProjectsAdapter_get projectsAdapter srv' w' (project_id p) = (Inr (Some sp), w2) \<longrightarrow>
      loadProject srv' w' (project_id p) = (Inr (Some p), w2)"
    by (simp add: loadProject_def)
  moreover from set_last_request [OF st]
  have "last (trace w1) =
          Fetch \<lparr>req_method = PUT, req_url = ''/api/projects/'' @ project_id p,
                 req_body = ProjectBody sp\<rparr> \<or>
        last (trace w1) =
          Fetch \<lparr>req_method = POST, req_url = ''/api/projects'', req_body = ProjectBody sp\<rparr>"
    by (simp add: projectsAdapter_def)
  ultimately show ?thesis using sp by blast
qed

theorem project_round_trip_witness:
  "serializeProject demo_project = Inr demo_serialized \<and>
   fst (saveProject scripted round_trip_world demo_project) = Inr () \<and>
   fst (loadProject scripted (snd (saveProject scripted round_trip_world demo_project)) ''p1'') =
     Inr (Some demo_project)"
proof -
  have ser: "serializeProject demo_project = Inr demo_serialized"
    by (simp add: serializeProject_def serializeScene_def toISOString_def demo_project_def
        demo_serialized_def)
  have pid: "project_id demo_project = ''p1''"
    by (simp add: demo_project_def)
  have sv: "fst (saveProject scripted round_trip_world demo_project) = Inr ()"
    by (simp add: saveProject_def ser pid adapter_defs round_trip_world_def example_defs)
  let ?w1 = "snd (saveProject scripted round_trip_world demo_project)"
  have saved: "saveProject scripted round_trip_world demo_project = (Inr (), ?w1)"
    using sv by (simp add: prod_eq_iff)
  have rs: "remote_state ?w1 =
      [(Some (answer 200 ''OK'' (no_json\<lparr>j_project := Some demo_serialized\<rparr>)), 5)]"
    by (simp add: saveProject_def ser pid adapter_defs round_trip_world_def example_defs)
  let ?w2 = "snd (RemoteProjectsAdapter_get projectsAdapter scripted ?w1 ''p1'')"
  have "fst (RemoteProjectsAdapter_get projectsAdapter scripted ?w1 ''p1'') =
      Inr (Some demo_serialized)"
    by (simp add: adapter_defs rs example_defs split: prod.splits)
  then have got: "RemoteProjectsAdapter_get projectsAdapter scripted ?w1 (project_id demo_project) =
      (Inr (Some demo_serialized), ?w2)"
    by (simp add: prod_eq_iff pid)
  have "loadProject scripted ?w1 (project_id demo_project) = (Inr (Some demo_project), ?w2)"
    using project_round_trip [OF saved] ser got by auto
  then show ?thesis using ser sv pid by simp
qed

section \<open>Removing a media file: the cascade and the order of effects\<close>

lemma code_condition: "(el_type el = media \<and> el_mediaId el = Some i) = references i el"
  by (cases el) (simp_all add: references_def)

lemma set_elementsToRemove:
  "set (elementsToRemove ts i) =
     {(track_id t, el_id e) | t e. t \<in> set ts \<and> e \<in> set (elements t) \<and> references i e}"
  by (auto simp add: elementsToRemove_def code_condition)

lemma elementsToRemove_empty:
  "elementsToRemove ts i = [] \<longleftrightarrow> (\<forall>t \<in> set ts. \<forall>e \<in> set (elements t). \<not> references i e)"
proof -
  have "elementsToRemove ts i = [] \<longleftrightarrow> set (elementsToRemove ts i) = {}"
    by simp
  also have "\<dots> \<longleftrightarrow> (\<forall>t \<in> set ts. \<forall>e \<in> set (elements t). \<not> references i e)"
    unfolding set_elementsToRemove by blast
  finally show ?thesis .
qed

lemma deleteMediaFile_local:
  "tracks (snd (deleteMediaFile srv w projectId i)) = tracks w"
  "mediaFiles (snd (deleteMediaFile srv w projectId i)) = mediaFiles w"
  "selectedElements (snd (deleteMediaFile srv w projectId i)) = selectedElements w"
  "trace (snd (deleteMediaFile srv w projectId i)) = trace w @ [Fetch (deleteMediaFile_request i)]"
  by (auto simp add: deleteMediaFile_def deleteMediaFile_resume_def serve_def issue_def
      split: prod.splits option.splits)

lemma removeMediaFile_steps:
  "removeMediaFile srv w projectId i =
     (Inr (), snd (deleteMediaFile srv (after_local_removal w i) projectId i))"
  by (simp add: removeMediaFile_def after_local_removal_def Let_def split: prod.splits sum.splits)

lemma after_local_removal_state:
  "mediaFiles (after_local_removal w i) = filter (\<lambda>m. mf_id m \<noteq> i) (mediaFiles w)"
  "tracks (after_local_removal w i) =
     (if elementsToRemove (tracks w) i = [] then tracks w
      else tracks (deleteSelected (setSelectedElements w (elementsToRemove (tracks w) i))))"
  "trace (after_local_removal w i) =
     trace w @ [MediaFilesSet] @
     (if elementsToRemove (tracks w) i = [] then []
      else [SetSelectedElements (elementsToRemove (tracks w) i), DeleteSelected])"
  by (simp_all add: after_local_removal_def Let_def deleteSelected_def setSelectedElements_def)

lemma removeMediaFile_tracks:
  "tracks (snd (removeMediaFile srv w projectId i)) =
     (if elementsToRemove (tracks w) i = [] then tracks w
      else tracks (deleteSelected (setSelectedElements w (elementsToRemove (tracks w) i))))"
  by (simp add: removeMediaFile_steps deleteMediaFile_local after_local_removal_state)

lemma cascade_tracks:
  assumes "ids_identify (tracks w)"
  shows "tracks (snd (removeMediaFile srv w projectId i)) =
         map (\<lambda>t. t\<lparr>elements := filter (\<lambda>e. \<not> references i e) (elements t)\<rparr>) (tracks w)"
proof (cases "elementsToRemove (tracks w) i = []")
  case True
  then have none: "\<forall>t \<in> set (tracks w). \<forall>e \<in> set (elements t). \<not> references i e"
    by (simp add: elementsToRemove_empty)
  have "map (\<lambda>t. t\<lparr>elements := filter (\<lambda>e. \<not> references i e) (elements t)\<rparr>) (tracks w) =
        map (\<lambda>t. t) (tracks w)"
  proof (rule map_cong [OF refl])
    fix t assume "t \<in> set (tracks w)"
    with none have "filter (\<lambda>e. \<not> references i e) (elements t) = elements t"
      by (simp add: filter_id_conv)
    then show "t\<lparr>elements := filter (\<lambda>e. \<not> references i e) (elements t)\<rparr> = t"
      by simp
  qed
  then show ?thesis using True by (simp add: removeMediaFile_tracks)
next
  case False
  have "map (\<lambda>t. t\<lparr>elements :=
              filter (\<lambda>e. (track_id t, el_id e) \<notin> set (elementsToRemove (tracks w) i)) (elements t)\<rparr>)
          (tracks w) =
        map (\<lambda>t. t\<lparr>elements := filter (\<lambda>e. \<not> references i e) (elements t)\<rparr>) (tracks w)"
  proof (rule map_cong [OF refl])
    fix t assume t: "t \<in> set (tracks w)"
    have "filter (\<lambda>e. (track_id t, el_id e) \<notin> set (elementsToRemove (tracks w) i)) (elements t) =
          filter (\<lambda>e. \<not> references i e) (elements t)"
    proof (rule filter_cong [OF refl])
      fix e assume e: "e \<in> set (elements t)"
      show "((track_id t, el_id e) \<notin> set (elementsToRemove (tracks w) i)) = (\<not> references i e)"
      proof -
        have "(track_id t, el_id e) \<in> set (elementsToRemove (tracks w) i) \<longleftrightarrow> references i e"
        proof
          assume "(track_id t, el_id e) \<in> set (elementsToRemove (tracks w) i)"
          then obtain t' e' where "t' \<in> set (tracks w)" "e' \<in> set (elements t')"
            "references i e'" "track_id t = track_id t'" "el_id e = el_id e'"
            unfolding set_elementsToRemove by blast
          with assms t e have "e = e'"
            unfolding ids_identify_def by blast
          with \<open>references i e'\<close> show "references i e" by simp
        next
          assume "references i e"
          with t e show "(track_id t, el_id e) \<in> set (elementsToRemove (tracks w) i)"
            unfolding set_elementsToRemove by blast
        qed
        then show ?thesis by simp
      qed
    qed
    then show "t\<lparr>elements :=
              filter (\<lambda>e. (track_id t, el_id e) \<notin> set (elementsToRemove (tracks w) i)) (elements t)\<rparr> =
          t\<lparr>elements := filter (\<lambda>e. \<not> references i e) (elements t)\<rparr>"
      by simp
  qed
  then show ?thesis
    using False by (simp add: removeMediaFile_tracks deleteSelected_def setSelectedElements_def)
qed

lemma all_elements_filtered:
  "all_elements (map (\<lambda>t. t\<lparr>elements := filter P (elements t)\<rparr>) ts) = filter P (all_elements ts)"
  by (induction ts) (simp_all add: all_elements_def)

text \<open>
  C2 (cascade completeness).  In a timeline whose ids identify its elements, removing the
  media \<open>M\<close> through the media store leaves every track with exactly its elements that
  do not reference \<open>M\<close>, unchanged and in their order, however the elements are spread
  over the tracks: the \<open>N\<close> elements that reference \<open>M\<close> are gone, and the other \<open>K\<close>
  are all that remains.
\<close>

theorem cascade_completeness:
  assumes "ids_identify (tracks w)"
  shows "tracks (snd (removeMediaFile srv w projectId M)) =
           map (\<lambda>t. t\<lparr>elements := filter (\<lambda>e. \<not> references M e) (elements t)\<rparr>) (tracks w) \<and>
         all_elements (tracks (snd (removeMediaFile srv w projectId M))) =
           filter (\<lambda>e. \<not> references M e) (all_elements (tracks w)) \<and>
         length (all_elements (tracks w)) =
           length (filter (references M) (all_elements (tracks w))) +
           length (all_elements (tracks (snd (removeMediaFile srv w projectId M))))"
proof -
  note c = cascade_tracks [OF assms, of srv projectId M]
  have a: "all_elements (tracks (snd (removeMediaFile srv w projectId M))) =
           filter (\<lambda>e. \<not> references M e) (all_elements (tracks w))"
    unfolding c by (rule all_elements_filtered)
  have "length (all_elements (tracks w)) =
           length (filter (references M) (all_elements (tracks w))) +
           length (filter (\<lambda>e. \<not> references M e) (all_elements (tracks w)))"
    by (rule sum_length_filter_compl [symmetric])
  with c a show ?thesis by simp
qed

theorem cascade_completeness_witness:
  "ids_identify (tracks (editing_world [(Some (answer 200 ''OK'' no_json), 5)])) \<and>
   length (filter (references ''m1'')
      (all_elements (tracks (editing_world [(Some (answer 200 ''OK'' no_json), 5)])))) = 2 \<and>
   tracks (snd (removeMediaFile scripted
      (editing_world [(Some (answer 200 ''OK'' no_json), 5)]) ''p1'' ''m1'')) =
     [main_track\<lparr>elements := [TextElement ''e2'' ''title'', MediaElement ''e3'' ''m2'' ''other'']\<rparr>,
      overlay_track\<lparr>elements := []\<rparr>] \<and>
   all_elements (tracks (snd (removeMediaFile scripted
      (editing_world [(Some (answer 200 ''OK'' no_json), 5)]) ''p1'' ''m1''))) =
     [TextElement ''e2'' ''title'', MediaElement ''e3'' ''m2'' ''other'']"
proof -
  let ?w = "editing_world [(Some (answer 200 ''OK'' no_json), 5)]"
  have t: "tracks ?w = [main_track, overlay_track]"
    by (simp add: editing_world_def initial_world_def)
  have wf: "ids_identify (tracks ?w)"
    unfolding t by (simp add: ids_identify_def main_track_def overlay_track_def)
  have n: "length (filter (references ''m1'') (all_elements (tracks ?w))) = 2"
    unfolding t by (simp add: all_elements_def references_def main_track_def overlay_track_def)
  have m: "map (\<lambda>t. t\<lparr>elements := filter (\<lambda>e. \<not> references ''m1'' e) (elements t)\<rparr>) (tracks ?w) =
      [main_track\<lparr>elements := [TextElement ''e2'' ''title'', MediaElement ''e3'' ''m2'' ''other'']\<rparr>,
       overlay_track\<lparr>elements := []\<rparr>]"
    unfolding t by (simp add: references_def main_track_def overlay_track_def)
  have f: "filter (\<lambda>e. \<not> references ''m1'' e) (all_elements (tracks ?w)) =
      [TextElement ''e2'' ''title'', MediaElement ''e3'' ''m2'' ''other'']"
    unfolding t by (simp add: all_elements_def references_def main_track_def overlay_track_def)
  show ?thesis
    using cascade_completeness [OF wf, of scripted "''p1''" "''m1''"] wf n
    unfolding m f by blast
qed

text \<open>
  C5.  \<open>removeMediaFile\<close> returns normally whatever the remote does, and its remote
  deletion starts from the state in which the asset is already removed from the media
  list and the cascade into the timeline is already done: up to there no request has been
  issued, and the DELETE request is the last event of the trace.  The media list and the
  tracks at the end are those of that state, for every remote, so also for one that fails.
\<close>

theorem removal_is_local_first:
  "removeMediaFile srv w projectId i =
     (Inr (), snd (deleteMediaFile srv (after_local_removal w i) projectId i)) \<and>
   mediaFiles (after_local_removal w i) = filter (\<lambda>m. mf_id m \<noteq> i) (mediaFiles w) \<and>
   tracks (after_local_removal w i) =
     (if elementsToRemove (tracks w) i = [] then tracks w
      else tracks (deleteSelected (setSelectedElements w (elementsToRemove (tracks w) i)))) \<and>
   trace (after_local_removal w i) =
     trace w @ [MediaFilesSet] @
     (if elementsToRemove (tracks w) i = [] then []
      else [SetSelectedElements (elementsToRemove (tracks w) i), DeleteSelected]) \<and>
   trace (snd (removeMediaFile srv w projectId i)) =
     trace (after_local_removal w i) @ [Fetch (deleteMediaFile_request i)] \<and>
   mediaFiles (snd (removeMediaFile srv w projectId i)) = mediaFiles (after_local_removal w i) \<and>
   tracks (snd (removeMediaFile srv w projectId i)) = tracks (after_local_removal w i)"
  by (simp add: removeMediaFile_steps deleteMediaFile_local after_local_removal_state)

text \<open>
  The remote answers the deletion with 500: the operation returns normally, the asset and
  the two elements that referenced it stay removed, and the request came last.
\<close>

theorem removal_is_local_first_witness:
  "fst (deleteMediaFile scripted
      (after_local_removal
         (editing_world [(Some (answer 500 ''Internal Server Error'' no_json), 5)]) ''m1'')
      ''p1'' ''m1'') = Inl (HttpError ''Failed to delete media: Internal Server Error'') \<and>
   fst (removeMediaFile scripted
      (editing_world [(Some (answer 500 ''Internal Server Error'' no_json), 5)]) ''p1'' ''m1'') =
     Inr () \<and>
   mediaFiles (snd (removeMediaFile scripted
      (editing_world [(Some (answer 500 ''Internal Server Error'' no_json), 5)]) ''p1'' ''m1'')) =
     [toMediaFile (clip ''m2'')] \<and>
   tracks (snd (removeMediaFile scripted
      (editing_world [(Some (answer 500 ''Internal Server Error'' no_json), 5)]) ''p1'' ''m1'')) =
     [main_track\<lparr>elements := [TextElement ''e2'' ''title'', MediaElement ''e3'' ''m2'' ''other'']\<rparr>,
      overlay_track\<lparr>elements := []\<rparr>] \<and>
   trace (snd (removeMediaFile scripted
      (editing_world [(Some (answer 500 ''Internal Server Error'' no_json), 5)]) ''p1'' ''m1'')) =
     [MediaFilesSet, SetSelectedElements [(''t1'', ''e1''), (''t2'', ''e4'')], DeleteSelected,
      Fetch (deleteMediaFile_request ''m1'')]"
proof -
  let ?w = "editing_world [(Some (answer 500 ''Internal Server Error'' no_json), 5)]"
  have t: "tracks ?w = [main_track, overlay_track]"
    and mf: "mediaFiles ?w = [toMediaFile (clip ''m1''), toMediaFile (clip ''m2'')]"
    and tr: "trace ?w = []"
    by (simp_all add: editing_world_def initial_world_def)
  have sel: "elementsToRemove (tracks ?w) ''m1'' = [(''t1'', ''e1''), (''t2'', ''e4'')]"
    unfolding t by (simp add: elementsToRemove_def main_track_def overlay_track_def)
  have ids: "mf_id (toMediaFile (clip ''m1'')) = ''m1''" "mf_id (toMediaFile (clip ''m2'')) = ''m2''"
    by (simp_all add: toMediaFile_def clip_def)
  have del: "tracks (deleteSelected (setSelectedElements ?w [(''t1'', ''e1''), (''t2'', ''e4'')])) =
      [main_track\<lparr>elements := [TextElement ''e2'' ''title'', MediaElement ''e3'' ''m2'' ''other'']\<rparr>,
       overlay_track\<lparr>elements := []\<rparr>]"
    by (simp add: deleteSelected_def setSelectedElements_def t main_track_def overlay_track_def)
  have fails: "fst (deleteMediaFile scripted (after_local_removal ?w ''m1'') ''p1'' ''m1'') =
      Inl (HttpError ''Failed to delete media: Internal Server Error'')"
    by (simp add: deleteMediaFile_def deleteMediaFile_resume_def serve_def issue_def
        after_local_removal_def Let_def sel deleteSelected_def setSelectedElements_def
        editing_world_def example_defs)
  note T = removal_is_local_first [of scripted ?w "''p1''" "''m1''"]
  have 1: "fst (removeMediaFile scripted ?w ''p1'' ''m1'') = Inr ()"
    using T by simp
  have 2: "mediaFiles (snd (removeMediaFile scripted ?w ''p1'' ''m1'')) =
      filter (\<lambda>m. mf_id m \<noteq> ''m1'') (mediaFiles ?w)"
    using T by metis
  have 3: "tracks (snd (removeMediaFile scripted ?w ''p1'' ''m1'')) =
      (if elementsToRemove (tracks ?w) ''m1'' = [] then tracks ?w
       else tracks (deleteSelected (setSelectedElements ?w (elementsToRemove (tracks ?w) ''m1''))))"
    using T by metis
  have 4: "trace (snd (removeMediaFile scripted ?w ''p1'' ''m1'')) =
      (trace ?w @ [MediaFilesSet] @
       (if elementsToRemove (tracks ?w) ''m1'' = [] then []
        else [SetSelectedElements (elementsToRemove (tracks ?w) ''m1''), DeleteSelected])) @
      [Fetch (deleteMediaFile_request ''m1'')]"
    using T by metis
  show ?thesis
    using fails 1 2 3 4 by (simp add: sel mf tr ids del)
qed


section \<open>Deleting all the media of a project\<close>

lemma foldl_issue:
  "trace (foldl issue w reqs) = trace w @ map Fetch reqs"
  "mediaCache (foldl issue w reqs) = mediaCache w"
  "remote_state (foldl issue w reqs) = remote_state w"
  by (induction reqs arbitrary: w) (simp_all add: issue_def)

lemma resume_trace:
  "trace (snd (deleteMediaFile_resume srv w projectId i)) = trace w"
  by (auto simp add: deleteMediaFile_resume_def serve_def split: prod.splits option.splits)

lemma resume_remote:
  "remote_state (snd (deleteMediaFile_resume srv w projectId i)) =
     snd (snd (srv (remote_state w) (deleteMediaFile_request i)))"
  by (auto simp add: deleteMediaFile_resume_def serve_def split: prod.splits option.splits)

lemma resume_rejected:
  "isl (fst (deleteMediaFile_resume srv w projectId i)) \<Longrightarrow>
     mediaCache (snd (deleteMediaFile_resume srv w projectId i)) = mediaCache w"
  by (auto simp add: deleteMediaFile_resume_def serve_def split: prod.splits option.splits if_splits)

lemma settle_all_trace:
  "trace (snd (settle_all srv w projectId xs)) = trace w"
proof (induction xs arbitrary: w)
  case Nil
  then show ?case by simp
next
  case (Cons x xs)
  show ?case
    using Cons [of "snd (deleteMediaFile_resume srv w projectId x)"]
      resume_trace [of srv w projectId x]
    by (simp add: split_def)
qed

lemma settle_all_length:
  "length (fst (settle_all srv w projectId xs)) = length xs"
proof (induction xs arbitrary: w)
  case Nil
  then show ?case by simp
next
  case (Cons x xs)
  show ?case
    using Cons [of "snd (deleteMediaFile_resume srv w projectId x)"]
    by (simp add: split_def)
qed

lemma settle_all_remote:
  "remote_state (snd (settle_all srv w projectId xs)) =
     foldl (\<lambda>r i. snd (snd (srv r (deleteMediaFile_request i)))) (remote_state w) xs"
proof (induction xs arbitrary: w)
  case Nil
  then show ?case by simp
next
  case (Cons x xs)
  show ?case
    using Cons [of "snd (deleteMediaFile_resume srv w projectId x)"]
      resume_remote [of srv w projectId x]
    by (simp add: split_def)
qed

lemma settle_all_rejected:
  "\<forall>r \<in> set (fst (settle_all srv w projectId xs)). isl r \<Longrightarrow>
     mediaCache (snd (settle_all srv w projectId xs)) = mediaCache w"
proof (induction xs arbitrary: w)
  case Nil
  then show ?case by simp
next
  case (Cons x xs)
  obtain res w1 where r: "deleteMediaFile_resume srv w projectId x = (res, w1)"
    by (cases "deleteMediaFile_resume srv w projectId x")
  obtain ress w2 where s: "settle_all srv w1 projectId xs = (ress, w2)"
    by (cases "settle_all srv w1 projectId xs")
  from Cons.prems r s have "isl res" and all: "\<forall>r \<in> set ress. isl r"
    by simp_all
  from \<open>isl res\<close> r resume_rejected [of srv w projectId x] have "mediaCache w1 = mediaCache w"
    by simp
  moreover from Cons.IH [of w1] s all have "mediaCache w2 = mediaCache w1"
    by simp
  ultimately show ?case using r s by simp
qed

lemma first_rejection_all_rejected:
  "\<forall>r \<in> set rs. isl r \<Longrightarrow> rs \<noteq> [] \<Longrightarrow> first_rejection rs \<noteq> None"
  by (cases rs rule: first_rejection.cases) auto

text \<open>
  C4, as the code has it.  When the media list has been loaded, the request of every
  deletion is issued, in the order of the list, and every deletion runs on from its
  response whatever became of the others: the remote has served them all.  The caller
  gets the first rejection in the order of arrival, if there is one.  The final
  invalidation of the cached media list happens only when no deletion was rejected; when
  every deletion was rejected, the cache is what loading the list left.
\<close>

theorem fan_out_deletion:
  assumes loaded: "loadAllMediaFiles srv w projectId = (Inr allMedia, w1)"
    and settled: "settle_all srv
                    (foldl issue w1 (map deleteMediaFile_request (map mf_id allMedia)))
                    projectId (arrival (map mf_id allMedia)) = (results, w3)"
  shows "trace (snd (deleteProjectMedia srv arrival w projectId)) =
           trace w1 @ map (\<lambda>m. Fetch (deleteMediaFile_request (mf_id m))) allMedia \<and>
         length results = length (arrival (map mf_id allMedia)) \<and>
         remote_state (snd (deleteProjectMedia srv arrival w projectId)) =
           foldl (\<lambda>r i. snd (snd (srv r (deleteMediaFile_request i)))) (remote_state w1)
             (arrival (map mf_id allMedia)) \<and>
         fst (deleteProjectMedia srv arrival w projectId) =
           (case first_rejection results of Some e \<Rightarrow> Inl e | None \<Rightarrow> Inr ()) \<and>
         mediaCache (snd (deleteProjectMedia srv arrival w projectId)) =
           (if first_rejection results = None
            then CacheAdapter_invalidate (mediaCache w3) projectId
            else mediaCache w3) \<and>
         ((\<forall>r \<in> set results. isl r) \<and> results \<noteq> [] \<longrightarrow>
            mediaCache (snd (deleteProjectMedia srv arrival w projectId)) = mediaCache w1)"
proof -
  let ?ids = "map mf_id allMedia"
  let ?w2 = "foldl issue w1 (map deleteMediaFile_request ?ids)"
  have run: "deleteProjectMedia srv arrival w projectId =
      (case first_rejection results of
         Some e \<Rightarrow> (Inl e, w3)
       | None \<Rightarrow> (Inr (), w3\<lparr>mediaCache := CacheAdapter_invalidate (mediaCache w3) projectId\<rparr>))"
    using loaded settled by (simp add: deleteProjectMedia_def Let_def)
  have tr: "trace w3 = trace w1 @ map (\<lambda>m. Fetch (deleteMediaFile_request (mf_id m))) allMedia"
    using settle_all_trace [of srv ?w2 projectId "arrival ?ids"] settled
    by (simp add: foldl_issue comp_def)
  have len: "length results = length (arrival ?ids)"
    using settle_all_length [of srv ?w2 projectId "arrival ?ids"] settled by simp
  have rem: "remote_state w3 =
      foldl (\<lambda>r i. snd (snd (srv r (deleteMediaFile_request i)))) (remote_state w1) (arrival ?ids)"
    using settle_all_remote [of srv ?w2 projectId "arrival ?ids"] settled
    by (simp add: foldl_issue)
  have rej: "(\<forall>r \<in> set results. isl r) \<and> results \<noteq> [] \<longrightarrow>
      first_rejection results \<noteq> None \<and> mediaCache w3 = mediaCache w1"
    using settle_all_rejected [of srv ?w2 projectId "arrival ?ids"] settled
      first_rejection_all_rejected [of results]
    by (simp add: foldl_issue)
  show ?thesis
    using run tr len rem rej by (auto split: option.splits)
qed


text \<open>
  The claim C4 as stated fails when both of two deletions are rejected: the errors are
  thrown in the order first, second; the caller gets the first, not the last; and the
  media list that the load has cached is still in the cache at the end.
\<close>

theorem last_error_and_final_invalidation_counterexample:
  "fst (settle_all scripted
          (foldl issue (snd (loadAllMediaFiles scripted failing_world ''p1''))
             [deleteMediaFile_request ''m1'', deleteMediaFile_request ''m2''])
          ''p1'' [''m1'', ''m2'']) =
     [Inl (HttpError ''Failed to delete media: first failure''),
      Inl (HttpError ''Failed to delete media: second failure'')] \<and>
   fst (deleteProjectMedia scripted (\<lambda>ids. ids) failing_world ''p1'') =
     Inl (HttpError ''Failed to delete media: first failure'') \<and>
   entries (idbAdapter (mediaCache
       (snd (deleteProjectMedia scripted (\<lambda>ids. ids) failing_world ''p1'')))) ''p1'' =
     Some \<lparr>data = [clip ''m1'', clip ''m2''], timestamp = 5, version = 1\<rparr>"
  by (simp add: fan_out_defs failing_world_def)


theorem fan_out_deletion_witness:
  "fst (deleteProjectMedia scripted (\<lambda>ids. ids) mixed_world ''p1'') =
     Inl (HttpError ''Failed to delete media: first failure'') \<and>
   trace (snd (deleteProjectMedia scripted (\<lambda>ids. ids) mixed_world ''p1'')) =
     [Fetch (loadAllMediaFiles_request ''p1''), Fetch (deleteMediaFile_request ''m1''),
      Fetch (deleteMediaFile_request ''m2''), Fetch (deleteMediaFile_request ''m3'')] \<and>
   remote_state (snd (deleteProjectMedia scripted (\<lambda>ids. ids) mixed_world ''p1'')) = [] \<and>
   entries (idbAdapter (mediaCache
       (snd (deleteProjectMedia scripted (\<lambda>ids. ids) mixed_world ''p1'')))) ''p1'' = None \<and>
   fst (deleteProjectMedia scripted rev mixed_world ''p1'') =
     Inl (HttpError ''Failed to delete media: first failure'') \<and>
   mediaCache (snd (deleteProjectMedia scripted (\<lambda>ids. ids) failing_world ''p1'')) =
     mediaCache (snd (loadAllMediaFiles scripted failing_world ''p1''))"
proof -
  let ?files = "[toMediaFile (clip ''m1''), toMediaFile (clip ''m2''), toMediaFile (clip ''m3'')]"
  let ?w1 = "snd (loadAllMediaFiles scripted mixed_world ''p1'')"
  have l: "loadAllMediaFiles scripted mixed_world ''p1'' = (Inr ?files, ?w1)"
    by (simp add: prod_eq_iff fan_out_defs mixed_world_def)
  have w1: "trace ?w1 = [Fetch (loadAllMediaFiles_request ''p1'')]"
    "remote_state ?w1 = [(Some (answer 500 ''first failure'' no_json), 5),
        (Some (answer 200 ''OK'' no_json), 5),
        (Some (answer 500 ''second failure'' no_json), 5)]"
    by (simp_all add: fan_out_defs mixed_world_def)
  let ?w2 = "foldl issue ?w1 (map deleteMediaFile_request (map mf_id ?files))"
  obtain results w3
    where st: "settle_all scripted ?w2 ''p1'' (map mf_id ?files) = (results, w3)"
    by fastforce
  have res: "first_rejection results = Some (HttpError ''Failed to delete media: first failure'')"
    and cache: "entries (idbAdapter (mediaCache w3)) ''p1'' = None"
    using st by (auto simp add: fan_out_defs mixed_world_def)
  note T = fan_out_deletion [where arrival = "\<lambda>ids. ids", OF l st]
  have 1: "fst (deleteProjectMedia scripted (\<lambda>ids. ids) mixed_world ''p1'') =
      Inl (HttpError ''Failed to delete media: first failure'')"
    using T [THEN conjunct2, THEN conjunct2, THEN conjunct2, THEN conjunct1]
    by (simp add: res)
  have 2: "trace (snd (deleteProjectMedia scripted (\<lambda>ids. ids) mixed_world ''p1'')) =
     [Fetch (loadAllMediaFiles_request ''p1''), Fetch (deleteMediaFile_request ''m1''),
      Fetch (deleteMediaFile_request ''m2''), Fetch (deleteMediaFile_request ''m3'')]"
    using T [THEN conjunct1] by (simp add: w1 toMediaFile_def clip_def)
  have 3: "remote_state (snd (deleteProjectMedia scripted (\<lambda>ids. ids) mixed_world ''p1'')) = []"
    using T [THEN conjunct2, THEN conjunct2, THEN conjunct1]
    by (simp add: w1 scripted_def)
  have 4: "entries (idbAdapter (mediaCache
       (snd (deleteProjectMedia scripted (\<lambda>ids. ids) mixed_world ''p1'')))) ''p1'' = None"
    using T [THEN conjunct2, THEN conjunct2, THEN conjunct2, THEN conjunct2, THEN conjunct1] cache
    by (simp add: res)
  obtain rresults r3
    where rt: "settle_all scripted ?w2 ''p1'' (rev (map mf_id ?files)) = (rresults, r3)"
    by fastforce
  have rres: "first_rejection rresults = Some (HttpError ''Failed to delete media: first failure'')"
    using rt by (auto simp add: fan_out_defs mixed_world_def)
  have 5: "fst (deleteProjectMedia scripted rev mixed_world ''p1'') =
      Inl (HttpError ''Failed to delete media: first failure'')"
    using fan_out_deletion [where arrival = rev, OF l rt,
        THEN conjunct2, THEN conjunct2, THEN conjunct2, THEN conjunct1]
    by (simp add: rres)
  let ?ffiles = "[toMediaFile (clip ''m1''), toMediaFile (clip ''m2'')]"
  let ?f1 = "snd (loadAllMediaFiles scripted failing_world ''p1'')"
  have fl: "loadAllMediaFiles scripted failing_world ''p1'' = (Inr ?ffiles, ?f1)"
    by (simp add: prod_eq_iff fan_out_defs failing_world_def)
  obtain fresults f3
    where ft: "settle_all scripted (foldl issue ?f1 (map deleteMediaFile_request (map mf_id ?ffiles)))
      ''p1'' (map mf_id ?ffiles) = (fresults, f3)"
    by fastforce
  have fres: "(\<forall>r \<in> set fresults. isl r) \<and> fresults \<noteq> []"
    using ft by (auto simp add: fan_out_defs failing_world_def)
  have 6: "mediaCache (snd (deleteProjectMedia scripted (\<lambda>ids. ids) failing_world ''p1'')) =
      mediaCache ?f1"
    using fan_out_deletion [where arrival = "\<lambda>ids. ids", OF fl ft,
        THEN conjunct2, THEN conjunct2, THEN conjunct2, THEN conjunct2, THEN conjunct2] fres
    by blast
  show ?thesis
    using 1 2 3 4 5 6 by blast
qed

end
